theory Spec2Isabelle
  imports Complex_Main "HOL-Library.Multiset"
begin

section \<open>RooAddModel: a sum of resolution models with derived last coefficient\<close>

text \<open>
  The development follows \<^verbatim>\<open>src/roofitcore/src/RooAddModel.cxx\<close>. A \<^verbatim>\<open>Double_t\<close> is
  modelled as a \<^typ>\<open>real\<close>: sums and products are the exact ones, rounding is not
  part of the model. An \<^verbatim>\<open>Int_t\<close> is an \<^typ>\<open>int\<close>; the only counters of the file
  (\<^verbatim>\<open>_errorCount\<close>, registry indices) grow by one per call and stay far from the
  range of 32 bits.
  A pointer to an object is its address (\<^typ>\<open>nat\<close>); a null pointer that the source
  dereferences is the error \<open>NullDeref\<close>, an \<^verbatim>\<open>assert(0)\<close> is the error
  \<open>AssertFailed\<close> carrying the message printed just before it.
\<close>

subsection \<open>Data model\<close>

type_synonym addr = nat

text \<open>
  A \<^verbatim>\<open>RooArgSet\<close> holds at most one element of each name and \<^verbatim>\<open>find\<close> looks an
  element up by its name, so a set is the list of the names of its elements, in
  insertion order. The pointer \<^verbatim>\<open>const RooArgSet* normSet\<close> may be null.
\<close>

type_synonym RooArgSet = "string list"
type_synonym normSet = "RooArgSet option"

datatype message =
    CountMismatch
  | InconsistentConvVar
  | ConvParamMismatch
  | CoefNotInRange real
  | NoMoreWillBePrinted
  | InconsistentIntegrals string
  | UnrecognizedCode int

datatype error = NullDeref | OutOfRange | AssertFailed message

text \<open>
  The interface of a component, as \<^verbatim>\<open>RooAddModel\<close> uses it: each virtual member
  function of \<^verbatim>\<open>RooResolutionModel\<close> that the file calls is a field. The value of
  \<^verbatim>\<open>getAnalyticalIntegralWN(allVars, subAnalVars, normSet)\<close> on a fresh, empty
  \<^verbatim>\<open>subAnalVars\<close> is the pair of the returned code and the filled set.
  \<^verbatim>\<open>convolution(basis, owner)\<close> returns a component again; it is passed to
  \<open>convolution\<close> below as a function.
\<close>

record RooResolutionModel =
  m_GetName :: string
  m_convVar :: addr
  m_getVal :: real
  m_basisCode :: "string \<Rightarrow> int"
  m_getNorm :: "normSet \<Rightarrow> real"
  m_getNormSpecial :: "normSet \<Rightarrow> real"
  m_getAnalyticalIntegralWN :: "RooArgSet \<Rightarrow> normSet \<Rightarrow> int \<times> RooArgSet"
  m_analyticalIntegralWN :: "int \<Rightarrow> normSet \<Rightarrow> real"

record RooAbsReal =
  c_GetName :: string
  c_getVal :: real

record RooFormulaVar =
  f_GetName :: string
  f_servers :: "addr list"

type_synonym RooAICRegistry = "int list list"

record RooAddModel =
  GetName :: string
  GetTitle :: string
  x :: addr
  modelProxyList :: "RooResolutionModel list"
  coefProxyList :: "RooAbsReal list"
  isCopy :: bool
  basis :: "RooFormulaVar option"
  cur_basisCode :: int
  errorCount :: int
  codeReg :: RooAICRegistry

subsection \<open>evaluate\<close>

text \<open>
  The running sum over the coefficient iterator. Each step takes the next model too;
  a model iterator that is exhausted first returns null, which \<^verbatim>\<open>(*model)\<close>
  dereferences. The loop returns the sum, the last coefficient and the models the
  iterator has not yet delivered.
\<close>

fun evaluate_loop ::
  "RooAbsReal list \<Rightarrow> RooResolutionModel list \<Rightarrow> real \<Rightarrow> real
     \<Rightarrow> error + (real \<times> real \<times> RooResolutionModel list)" where
  "evaluate_loop [] ms val lastCoef = Inr (val, lastCoef, ms)"
| "evaluate_loop (coef # cs) [] val lastCoef = Inl NullDeref"
| "evaluate_loop (coef # cs) (model # ms) val lastCoef =
     evaluate_loop cs ms (val + m_getVal model * c_getVal coef) (lastCoef - c_getVal coef)"

text \<open>
  \<^verbatim>\<open>(lastCoef<0.0 || lastCoef>1.0) && ++_errorCount<=10\<close>: the counter is
  incremented only when the range test holds; the warning, and at the tenth the
  announcement that it is the last, are printed while the new count is at most 10.
\<close>

definition evaluate :: "RooAddModel \<Rightarrow> error + (real \<times> message list \<times> RooAddModel)" where
  "evaluate self =
     (case evaluate_loop (coefProxyList self) (modelProxyList self) 0 1 of
        Inl e \<Rightarrow> Inl e
      | Inr (val, lastCoef, rest) \<Rightarrow>
          (case rest of
             [] \<Rightarrow> Inl NullDeref
           | model # _ \<Rightarrow>
               (let val' = val + m_getVal model * lastCoef in
                if lastCoef < 0 \<or> lastCoef > 1 then
                  (let n = errorCount self + 1; self' = self\<lparr>errorCount := n\<rparr> in
                   if n \<le> 10 then
                     Inr (val',
                          CoefNotInRange (1 - lastCoef) #
                            (if n = 10 then [NoMoreWillBePrinted] else []),
                          self')
                   else Inr (val', [], self'))
                else Inr (val', [], self))))"

subsection \<open>Construction from raw lists\<close>

text \<open>
  The loop over the model list. \<^verbatim>\<open>refConvVar\<close> starts as the null pointer and
  becomes the address of the first model's convolution variable; every later model
  must have the same one. The \<^verbatim>\<open>dynamic_cast\<close> applied to a pointer that already
  has the target type converts nothing and cannot give null, so it is no branch.
\<close>

fun ctor_model_loop ::
  "RooResolutionModel list \<Rightarrow> addr option \<Rightarrow> RooResolutionModel list
     \<Rightarrow> error + RooResolutionModel list" where
  "ctor_model_loop [] refConvVar proxies = Inr proxies"
| "ctor_model_loop (model # rest) refConvVar proxies =
     (case refConvVar of
        None \<Rightarrow> ctor_model_loop rest (Some (m_convVar model)) (proxies @ [model])
      | Some r \<Rightarrow>
          if m_convVar model \<noteq> r then Inl (AssertFailed InconsistentConvVar)
          else ctor_model_loop rest refConvVar (proxies @ [model]))"

fun ctor_coef_loop :: "RooAbsReal list \<Rightarrow> RooAbsReal list \<Rightarrow> RooAbsReal list" where
  "ctor_coef_loop [] proxies = proxies"
| "ctor_coef_loop (coef # rest) proxies = ctor_coef_loop rest (proxies @ [coef])"

text \<open>
  Modelled from the spec: the constructor of the base class
  \<^verbatim>\<open>RooResolutionModel(name, title, convVar)\<close> is not among the sources. By the spec
  a composite built from raw lists carries no basis and the basis code 0 of a plain
  density; its registry and its count of diagnostics start empty.
\<close>

definition RooResolutionModel_ctor :: "string \<Rightarrow> string \<Rightarrow> addr \<Rightarrow> RooAddModel" where
  "RooResolutionModel_ctor name title convVar =
     \<lparr>GetName = name, GetTitle = title, x = convVar,
      modelProxyList = [], coefProxyList = [],
      isCopy = False, basis = None, cur_basisCode = 0, errorCount = 0, codeReg = []\<rparr>"

text \<open>
  The base class is initialised with \<^verbatim>\<open>modelList.at(0)->convVar()\<close> before the body
  runs: on an empty model list \<^verbatim>\<open>at(0)\<close> is null. The initialiser list sets
  \<^verbatim>\<open>_isCopy\<close> to false; then come the check of the sizes and the two loops.
\<close>

definition RooAddModel_ctor ::
  "string \<Rightarrow> string \<Rightarrow> RooResolutionModel list \<Rightarrow> RooAbsReal list \<Rightarrow> error + RooAddModel" where
  "RooAddModel_ctor name title modelList coefList =
     (case modelList of
        [] \<Rightarrow> Inl NullDeref
      | first # _ \<Rightarrow>
          (let self = (RooResolutionModel_ctor name title (m_convVar first))\<lparr>isCopy := False\<rparr>
           in if int (length modelList) \<noteq> int (length coefList) + 1
              then Inl (AssertFailed CountMismatch)
              else
                (case ctor_model_loop modelList None [] of
                   Inl e \<Rightarrow> Inl e
                 | Inr models \<Rightarrow>
                     Inr (self\<lparr>modelProxyList := models,
                               coefProxyList := ctor_coef_loop coefList []\<rparr>))))"

subsection \<open>convolution\<close>

text \<open>
  Modelled from the spec: \<^verbatim>\<open>findServer\<close> is not among the sources. The primary
  variable of a basis function is its first server; \<^verbatim>\<open>findServer(i)\<close> is the
  \<open>i\<close>-th server, or null when there is none.
\<close>

definition findServer :: "RooFormulaVar \<Rightarrow> nat \<Rightarrow> addr option" where
  "findServer b i = (if i < length (f_servers b) then Some (f_servers b ! i) else None)"

text \<open>
  Modelled from the spec: \<^verbatim>\<open>RooResolutionModel::changeBasis\<close> is not among the
  sources; the spec says that the new composite is tagged with the basis.
\<close>

definition changeBasis :: "RooAddModel \<Rightarrow> RooFormulaVar \<Rightarrow> RooAddModel" where
  "changeBasis self b = self\<lparr>basis := Some b\<rparr>"

text \<open>
  The loop that asks each component for its own convolution; \<open>cv\<close> is the
  component's \<^verbatim>\<open>convolution(basis, owner)\<close>, whose null result \<^verbatim>\<open>*conv\<close>
  would dereference.
\<close>

fun convolution_loop ::
  "(RooResolutionModel \<Rightarrow> RooResolutionModel option) \<Rightarrow> RooResolutionModel list
     \<Rightarrow> RooResolutionModel list \<Rightarrow> error + RooResolutionModel list" where
  "convolution_loop cv [] modelList = Inr modelList"
| "convolution_loop cv (model # rest) modelList =
     (case cv model of
        None \<Rightarrow> Inl NullDeref
      | Some conv \<Rightarrow> convolution_loop cv rest (modelList @ [conv]))"

text \<open>
  The result \<open>Inr (out, None)\<close> is the returned null pointer. When the basis has no
  server at all, the comparison fails too and the diagnostic then reads the name
  through the null pointer \<^verbatim>\<open>basis->findServer(0)\<close>.
\<close>

definition convolution ::
  "(RooFormulaVar \<Rightarrow> string \<Rightarrow> RooResolutionModel \<Rightarrow> RooResolutionModel option)
     \<Rightarrow> RooAddModel \<Rightarrow> RooFormulaVar \<Rightarrow> string
     \<Rightarrow> error + (message list \<times> RooAddModel option)" where
  "convolution m_convolution self b owner =
     (case findServer b 0 of
        None \<Rightarrow> Inl NullDeref
      | Some v \<Rightarrow>
          if v \<noteq> x self then Inr ([ConvParamMismatch], None)
          else
            (let newName = GetName self @ ''_conv_'' @ f_GetName b @ ''_['' @ owner @ '']'';
                 newTitle = GetTitle self @ '' convoluted with basis function '' @ f_GetName b
             in case convolution_loop (m_convolution b owner) (modelProxyList self) [] of
                  Inl e \<Rightarrow> Inl e
                | Inr modelList \<Rightarrow>
                    (let coefList = coefProxyList self
                     in case RooAddModel_ctor newName newTitle modelList coefList of
                          Inl e \<Rightarrow> Inl e
                        | Inr convSum \<Rightarrow> Inr ([], Some (changeBasis convSum b)))))"

subsection \<open>basisCode\<close>

text \<open>
  \<^verbatim>\<open>Bool_t first(kTRUE), code(0)\<close> declares both variables as \<^verbatim>\<open>Bool_t\<close>. The
  header that declares \<^verbatim>\<open>Bool_t\<close> is not among the sources, so the conversion of an
  \<^verbatim>\<open>Int_t\<close> to a \<^verbatim>\<open>Bool_t\<close> is a parameter of the function: \<open>Bool_t_bool\<close> is
  the conversion when \<^verbatim>\<open>Bool_t\<close> is \<^verbatim>\<open>bool\<close>, \<open>Bool_t_uchar\<close> the one when it is
  \<^verbatim>\<open>unsigned char\<close>. No statement of the loop assigns \<^verbatim>\<open>first\<close>.
\<close>

definition Bool_t_bool :: "int \<Rightarrow> int" where
  "Bool_t_bool v = (if v \<noteq> 0 then 1 else 0)"

definition Bool_t_uchar :: "int \<Rightarrow> int" where
  "Bool_t_uchar v = v mod 256"

fun basisCode_loop ::
  "(int \<Rightarrow> int) \<Rightarrow> string \<Rightarrow> RooResolutionModel list \<Rightarrow> bool \<Rightarrow> int \<Rightarrow> int" where
  "basisCode_loop Bool_t name [] first code = code"
| "basisCode_loop Bool_t name (model # rest) first code =
     (let subCode = m_basisCode model name
      in basisCode_loop Bool_t name rest first
           (if first then Bool_t subCode else if subCode = 0 then Bool_t 0 else code))"

definition basisCode :: "(int \<Rightarrow> int) \<Rightarrow> RooAddModel \<Rightarrow> string \<Rightarrow> int" where
  "basisCode Bool_t self name =
     basisCode_loop Bool_t name (modelProxyList self) True (Bool_t 0)"

subsection \<open>getNorm and getNormSpecial\<close>

text \<open>
  The generic normalisation \<^verbatim>\<open>RooAbsPdf::getNorm\<close> of the base class is a parameter.
  The lines printed under \<^verbatim>\<open>_verboseEval>1\<close> are left out.
\<close>

fun getNorm_loop ::
  "normSet \<Rightarrow> RooAbsReal list \<Rightarrow> RooResolutionModel list \<Rightarrow> real \<Rightarrow> real
     \<Rightarrow> error + (real \<times> real \<times> RooResolutionModel list)" where
  "getNorm_loop nset [] ms nrm lastCoef = Inr (nrm, lastCoef, ms)"
| "getNorm_loop nset (coef # cs) [] nrm lastCoef = Inl NullDeref"
| "getNorm_loop nset (coef # cs) (model # ms) nrm lastCoef =
     getNorm_loop nset cs ms (nrm + m_getNorm model nset * c_getVal coef)
       (lastCoef - c_getVal coef)"

definition getNorm ::
  "(normSet \<Rightarrow> real) \<Rightarrow> RooAddModel \<Rightarrow> normSet \<Rightarrow> error + (real \<times> message list)" where
  "getNorm RooAbsPdf_getNorm self nset =
     (case basis self of
        None \<Rightarrow> Inr (RooAbsPdf_getNorm nset, [])
      | Some _ \<Rightarrow>
          (case getNorm_loop nset (coefProxyList self) (modelProxyList self) 0 1 of
             Inl e \<Rightarrow> Inl e
           | Inr (nrm, lastCoef, rest) \<Rightarrow>
               (case rest of
                  [] \<Rightarrow> Inl NullDeref
                | model # _ \<Rightarrow>
                    Inr (nrm + m_getNorm model nset * lastCoef,
                         if lastCoef < 0 \<or> lastCoef > 1
                         then [CoefNotInRange (1 - lastCoef)] else []))))"

fun getNormSpecial_loop ::
  "normSet \<Rightarrow> RooAbsReal list \<Rightarrow> RooResolutionModel list \<Rightarrow> real \<Rightarrow> real
     \<Rightarrow> error + (real \<times> real \<times> RooResolutionModel list)" where
  "getNormSpecial_loop nset [] ms nrm lastCoef = Inr (nrm, lastCoef, ms)"
| "getNormSpecial_loop nset (coef # cs) [] nrm lastCoef = Inl NullDeref"
| "getNormSpecial_loop nset (coef # cs) (model # ms) nrm lastCoef =
     getNormSpecial_loop nset cs ms (nrm + m_getNormSpecial model nset * c_getVal coef)
       (lastCoef - c_getVal coef)"

definition getNormSpecial ::
  "(normSet \<Rightarrow> real) \<Rightarrow> RooAddModel \<Rightarrow> normSet \<Rightarrow> error + (real \<times> message list)" where
  "getNormSpecial RooAbsPdf_getNorm self nset =
     (case basis self of
        None \<Rightarrow> Inr (RooAbsPdf_getNorm nset, [])
      | Some _ \<Rightarrow>
          (case getNormSpecial_loop nset (coefProxyList self) (modelProxyList self) 0 1 of
             Inl e \<Rightarrow> Inl e
           | Inr (nrm, lastCoef, rest) \<Rightarrow>
               (case rest of
                  [] \<Rightarrow> Inl NullDeref
                | model # _ \<Rightarrow>
                    Inr (nrm + m_getNormSpecial model nset * lastCoef,
                         if lastCoef < 0 \<or> lastCoef > 1
                         then [CoefNotInRange (1 - lastCoef)] else []))))"

subsection \<open>The registry of integration codes\<close>

text \<open>
  Modelled from the spec: \<^verbatim>\<open>RooAICRegistry\<close> (\<^verbatim>\<open>_codeReg\<close>) is not among the
  sources. The spec describes an append-only ordered list of code arrays:
  \<^verbatim>\<open>store\<close> never overwrites and never evicts and returns the index of the new
  entry, \<^verbatim>\<open>retrieve\<close> gives the array stored at an index, or nothing for an index
  that was never stored. \<^verbatim>\<open>store(codeList, size)\<close> copies the first \<^verbatim>\<open>size\<close>
  elements.
\<close>

definition store :: "RooAICRegistry \<Rightarrow> int list \<Rightarrow> nat \<Rightarrow> int \<times> RooAICRegistry" where
  "store reg codeList n = (int (length reg), reg @ [take n codeList])"

definition retrieve :: "RooAICRegistry \<Rightarrow> int \<Rightarrow> int list option" where
  "retrieve reg idx =
     (if 0 \<le> idx \<and> idx < int (length reg) then Some (reg ! nat idx) else None)"

subsection \<open>getAnalyticalIntegralWN\<close>

text \<open>
  Modelled from the spec: \<^verbatim>\<open>RooArgSet\<close> is not among the sources. The spec speaks
  of sets of variables, from which a variable is removed and to which granted
  variables are added. The three operations the function uses, on lists of names:
  lookup by name, removal of an element (silent when it is absent) and the addition of
  a whole set, which skips a name that is already there.
\<close>

definition RooArgSet_find :: "RooArgSet \<Rightarrow> string \<Rightarrow> string option" where
  "RooArgSet_find s name = List.find (\<lambda>a. a = name) s"

definition RooArgSet_remove :: "RooArgSet \<Rightarrow> string \<Rightarrow> RooArgSet" where
  "RooArgSet_remove s a = removeAll a s"

fun RooArgSet_add :: "RooArgSet \<Rightarrow> RooArgSet \<Rightarrow> RooArgSet" where
  "RooArgSet_add s [] = s"
| "RooArgSet_add s (a # rest) = RooArgSet_add (if a \<in> set s then s else s @ [a]) rest"

text \<open>
  The inner loop of the first iteration walks \<^verbatim>\<open>allVars\<close> and removes from
  \<^verbatim>\<open>allAnalVars\<close> each variable that the component's \<^verbatim>\<open>subAnalVars\<close> lacks.
\<close>

fun drop_unsupported :: "RooArgSet \<Rightarrow> RooArgSet \<Rightarrow> RooArgSet \<Rightarrow> RooArgSet" where
  "drop_unsupported [] subAnalVars allAnalVars = allAnalVars"
| "drop_unsupported (arg # rest) subAnalVars allAnalVars =
     drop_unsupported rest subAnalVars
       (if RooArgSet_find subAnalVars arg = None
        then RooArgSet_remove allAnalVars arg else allAnalVars)"

text \<open>
  The loops at lines 499, 526 and 573 take the next proxy from the iterator and call
  \<^verbatim>\<open>absArg()\<close> on it inside their condition, also when the iterator is exhausted
  and \<^verbatim>\<open>Next()\<close> has returned the null pointer. \<^verbatim>\<open>RooArgProxy::absArg\<close> is not
  among the sources, and a member call through a null pointer has no result that the
  language defines. What the call does is therefore a parameter of these loops: with
  \<open>Traps\<close> it reads the proxy's field through the null pointer and the program
  stops there; with \<open>YieldsNull\<close> it answers null and the loop ends. The loop of
  \<open>evaluate\<close> tests the proxy pointer itself and needs no such parameter.
\<close>

datatype null_call = Traps | YieldsNull

definition absArg_of_null :: "null_call \<Rightarrow> 'a \<Rightarrow> error + 'a" where
  "absArg_of_null nc st = (case nc of Traps \<Rightarrow> Inl NullDeref | YieldsNull \<Rightarrow> Inr st)"

fun first_iteration ::
  "null_call \<Rightarrow> RooResolutionModel list \<Rightarrow> RooArgSet \<Rightarrow> normSet \<Rightarrow> RooArgSet
     \<Rightarrow> error + RooArgSet" where
  "first_iteration nc [] allVars normSet allAnalVars = absArg_of_null nc allAnalVars"
| "first_iteration nc (model # rest) allVars normSet allAnalVars =
     (let (subCode, subAnalVars) = m_getAnalyticalIntegralWN model allVars normSet
      in first_iteration nc rest allVars normSet
           (drop_unsupported allVars subAnalVars allAnalVars))"

fun second_iteration ::
  "null_call \<Rightarrow> RooResolutionModel list \<Rightarrow> RooArgSet \<Rightarrow> normSet \<Rightarrow> int list \<Rightarrow> bool
     \<Rightarrow> message list \<Rightarrow> error + (int list \<times> bool \<times> message list)" where
  "second_iteration nc [] allAnalVars normSet subCode allOK out =
     absArg_of_null nc (subCode, allOK, out)"
| "second_iteration nc (model # rest) allAnalVars normSet subCode allOK out =
     (let code = fst (m_getAnalyticalIntegralWN model allAnalVars normSet)
      in if code = 0
         then second_iteration nc rest allAnalVars normSet (subCode @ [code]) False
                (out @ [InconsistentIntegrals (m_GetName model)])
         else second_iteration nc rest allAnalVars normSet (subCode @ [code]) allOK out)"

text \<open>
  When the function returns, the result is the returned master code, the caller's
  \<^verbatim>\<open>analVars\<close> after the call, what was printed, and the object with its registry.
\<close>

definition getAnalyticalIntegralWN ::
  "null_call \<Rightarrow> RooAddModel \<Rightarrow> RooArgSet \<Rightarrow> RooArgSet \<Rightarrow> normSet
     \<Rightarrow> error + (int \<times> RooArgSet \<times> message list \<times> RooAddModel)" where
  "getAnalyticalIntegralWN nc self allVars analVars normSet =
     (if cur_basisCode self \<noteq> 0 then Inr (0, analVars, [], self)
      else
        (case first_iteration nc (modelProxyList self) allVars normSet allVars of
           Inl e \<Rightarrow> Inl e
         | Inr allAnalVars \<Rightarrow>
             if length allAnalVars = 0 then Inr (0, analVars, [], self)
             else
               (case second_iteration nc (modelProxyList self) allAnalVars normSet
                       [] True [] of
                  Inl e \<Rightarrow> Inl e
                | Inr (subCode, allOK, out) \<Rightarrow>
                    if \<not> allOK then Inr (0, analVars, out, self)
                    else
                      (let (idx, reg) =
                             store (codeReg self) subCode (length (modelProxyList self))
                       in Inr (idx + 1, RooArgSet_add analVars allAnalVars, out,
                               self\<lparr>codeReg := reg\<rparr>)))))"

subsection \<open>analyticalIntegralWN\<close>

text \<open>
  The running sum again, with each component's analytic integral under its own stored
  code \<^verbatim>\<open>subCode[i]\<close>; a read past the end of the stored array is \<open>OutOfRange\<close>.
  The loop condition at line 573 calls \<^verbatim>\<open>absArg()\<close> on the next coefficient
  proxy, so the end of the coefficient list is reached through the null pointer.
\<close>

fun analyticalIntegralWN_loop ::
  "null_call \<Rightarrow> int list \<Rightarrow> normSet \<Rightarrow> RooAbsReal list \<Rightarrow> RooResolutionModel list \<Rightarrow> nat
     \<Rightarrow> real \<Rightarrow> real \<Rightarrow> error + (real \<times> real \<times> nat \<times> RooResolutionModel list)" where
  "analyticalIntegralWN_loop nc subCode normSet [] ms i val lastCoef =
     absArg_of_null nc (val, lastCoef, i, ms)"
| "analyticalIntegralWN_loop nc subCode normSet (coef # cs) [] i val lastCoef =
     Inl NullDeref"
| "analyticalIntegralWN_loop nc subCode normSet (coef # cs) (model # ms) i val lastCoef =
     (if i < length subCode
      then (let coefVal = c_getVal coef
            in analyticalIntegralWN_loop nc subCode normSet cs ms (i + 1)
                 (val + m_analyticalIntegralWN model (subCode ! i) normSet * coefVal)
                 (lastCoef - coefVal))
      else Inl OutOfRange)"

text \<open>
  Modelled from the spec: \<^verbatim>\<open>getVal()\<close> is inherited and not among the sources. By
  the spec master code 0 means that there is no analytic integral and the call falls
  back to \<open>evaluate\<close>.
\<close>

definition getVal :: "RooAddModel \<Rightarrow> error + (real \<times> message list \<times> RooAddModel)" where
  "getVal self = evaluate self"

text \<open>
  The warning about the last coefficient at lines 585-589 carries no test of
  \<^verbatim>\<open>_errorCount\<close>: it is printed whenever the range test holds, and the counter
  stays as it is.
\<close>

definition analyticalIntegralWN ::
  "null_call \<Rightarrow> RooAddModel \<Rightarrow> int \<Rightarrow> normSet
     \<Rightarrow> error + (real \<times> message list \<times> RooAddModel)" where
  "analyticalIntegralWN nc self code normSet =
     (if code = 0 then getVal self
      else
        (case retrieve (codeReg self) (code - 1) of
           None \<Rightarrow> Inl (AssertFailed (UnrecognizedCode code))
         | Some subCode \<Rightarrow>
             (case analyticalIntegralWN_loop nc subCode normSet
                     (coefProxyList self) (modelProxyList self) 0 0 1 of
                Inl e \<Rightarrow> Inl e
              | Inr (val, lastCoef, i, rest) \<Rightarrow>
                  (case rest of
                     [] \<Rightarrow> Inl NullDeref
                   | model # _ \<Rightarrow>
                       if i < length subCode
                       then Inr (val + m_analyticalIntegralWN model (subCode ! i) normSet
                                         * lastCoef,
                                 if lastCoef < 0 \<or> lastCoef > 1
                                 then [CoefNotInRange (1 - lastCoef)] else [],
                                 self)
                       else Inl OutOfRange))))"

subsection \<open>Repeated calls\<close>

text \<open>
  \<open>evaluate_calls n\<close> and \<open>integral_calls nc n\<close> make \<open>n\<close> calls in a row on one
  object, each on the object the call before it left, and collect the value each call
  returned with what it printed. An error ends the run.
\<close>

fun evaluate_calls ::
  "nat \<Rightarrow> RooAddModel \<Rightarrow> error + ((real \<times> message list) list \<times> RooAddModel)" where
  "evaluate_calls 0 self = Inr ([], self)"
| "evaluate_calls (Suc n) self =
     (case evaluate self of
        Inl e \<Rightarrow> Inl e
      | Inr (v, out, self') \<Rightarrow>
          (case evaluate_calls n self' of
             Inl e \<Rightarrow> Inl e
           | Inr (rs, self'') \<Rightarrow> Inr ((v, out) # rs, self'')))"

fun integral_calls ::
  "null_call \<Rightarrow> nat \<Rightarrow> RooAddModel \<Rightarrow> int \<Rightarrow> normSet
     \<Rightarrow> error + ((real \<times> message list) list \<times> RooAddModel)" where
  "integral_calls nc 0 self code normSet = Inr ([], self)"
| "integral_calls nc (Suc n) self code normSet =
     (case analyticalIntegralWN nc self code normSet of
        Inl e \<Rightarrow> Inl e
      | Inr (v, out, self') \<Rightarrow>
          (case integral_calls nc n self' code normSet of
             Inl e \<Rightarrow> Inl e
           | Inr (rs, self'') \<Rightarrow> Inr ((v, out) # rs, self'')))"

subsection \<open>Example objects\<close>

text \<open>
  A component with a fixed value, basis code and integration capability; its two
  normalisations agree and its analytic integral under a code is the value times the
  code. All examples share the convolution variable at address 7.
\<close>

definition component ::
  "string \<Rightarrow> real \<Rightarrow> int \<Rightarrow> (RooArgSet \<Rightarrow> int \<times> RooArgSet) \<Rightarrow> RooResolutionModel" where
  "component name v bc cap =
     \<lparr>m_GetName = name, m_convVar = 7, m_getVal = v, m_basisCode = (\<lambda>_. bc),
      m_getNorm = (\<lambda>_. v + 1), m_getNormSpecial = (\<lambda>_. v + 1),
      m_getAnalyticalIntegralWN = (\<lambda>vars _. cap vars),
      m_analyticalIntegralWN = (\<lambda>code _. v * of_int code)\<rparr>"

text \<open>Capabilities: every requested variable, with code \<open>c\<close>.\<close>

definition cap_all :: "int \<Rightarrow> RooArgSet \<Rightarrow> int \<times> RooArgSet" where
  "cap_all c vars = (if vars = [] then 0 else c, vars)"

text \<open>Only the variable \<open>v\<close>, with code \<open>c\<close>.\<close>

definition cap_only :: "string \<Rightarrow> int \<Rightarrow> RooArgSet \<Rightarrow> int \<times> RooArgSet" where
  "cap_only v c vars = (if v \<in> set vars then (c, [v]) else (0, []))"

text \<open>The variables \<open>X\<close> and \<open>Y\<close> jointly, and neither of them alone.\<close>

definition cap_joint :: "RooArgSet \<Rightarrow> int \<times> RooArgSet" where
  "cap_joint vars = (if set vars = {''X'', ''Y''} then (1, vars) else (0, []))"

definition coefficient :: "string \<Rightarrow> real \<Rightarrow> RooAbsReal" where
  "coefficient name v = \<lparr>c_GetName = name, c_getVal = v\<rparr>"

text \<open>
  A composite of the given components and coefficients, as the constructor leaves it,
  with convolution variable 7.
\<close>

definition composite :: "RooResolutionModel list \<Rightarrow> RooAbsReal list \<Rightarrow> RooAddModel" where
  "composite ms cs =
     \<lparr>GetName = ''sum'', GetTitle = ''sum of models'', x = 7,
      modelProxyList = ms, coefProxyList = cs,
      isCopy = False, basis = None, cur_basisCode = 0, errorCount = 0, codeReg = []\<rparr>"

text \<open>
  Component \<open>A\<close> integrates \<open>X\<close> and \<open>Y\<close> only jointly, \<open>B\<close> only \<open>X\<close>,
  \<open>D\<close> only \<open>Y\<close>, and \<open>E\<close> whatever is requested.
\<close>

definition model_A :: RooResolutionModel where
  "model_A = component ''A'' 2 0 cap_joint"

definition model_B :: RooResolutionModel where
  "model_B = component ''B'' 4 0 (cap_only ''X'' 2)"

definition model_D :: RooResolutionModel where
  "model_D = component ''D'' 4 0 (cap_only ''Y'' 3)"

definition model_E :: RooResolutionModel where
  "model_E = component ''E'' 2 0 (cap_all 5)"

text \<open>
  Components that report the basis codes 0, 2, 3 and 5, a basis function whose first
  server is the convolution variable 7 and one whose first server is another variable.
\<close>

definition model_bc :: "string \<Rightarrow> int \<Rightarrow> RooResolutionModel" where
  "model_bc name bc = component name 1 bc (cap_all 1)"

definition basis_exp :: RooFormulaVar where
  "basis_exp = \<lparr>f_GetName = ''exp'', f_servers = [7, 9]\<rparr>"

definition basis_other :: RooFormulaVar where
  "basis_other = \<lparr>f_GetName = ''osc'', f_servers = [8, 9]\<rparr>"

text \<open>
  A component's convolution for the examples: the clone carries the composed name and
  ten times the value of the original.
\<close>

definition conv_of ::
  "RooFormulaVar \<Rightarrow> string \<Rightarrow> RooResolutionModel \<Rightarrow> RooResolutionModel option" where
  "conv_of b owner m =
     Some (m\<lparr>m_GetName := m_GetName m @ ''_conv_'' @ f_GetName b @ ''_['' @ owner @ '']'',
             m_getVal := 10 * m_getVal m\<rparr>)"

text \<open>
  A composite whose coefficient 3/2 gives the last weight -1/2, and the same composite
  with the plan of codes 5 and 2 in its registry.
\<close>

definition degenerate_sum :: RooAddModel where
  "degenerate_sum = composite [model_E, model_B] [coefficient ''c'' (3/2)]"

definition degenerate_negotiated :: RooAddModel where
  "degenerate_negotiated = degenerate_sum\<lparr>codeReg := [[5, 2]]\<rparr>"

text \<open>
  A component whose \<^verbatim>\<open>getNormSpecial\<close> returns 5/2 where its \<^verbatim>\<open>getNorm\<close>
  returns 3.
\<close>

definition model_S :: RooResolutionModel where
  "model_S = (component ''S'' 2 0 (cap_all 1))\<lparr>m_getNormSpecial := (\<lambda>_. 5/2)\<rparr>"

section \<open>Properties\<close>

subsection \<open>The weighted sum\<close>

lemma evaluate_loop_result:
  "evaluate_loop cs ms val lastCoef =
     (if length cs \<le> length ms
      then Inr (val + (\<Sum>(c, m)\<leftarrow>zip cs ms. c_getVal c * m_getVal m),
                lastCoef - (\<Sum>c\<leftarrow>cs. c_getVal c),
                drop (length cs) ms)
      else Inl NullDeref)"
proof (induction cs ms val lastCoef rule: evaluate_loop.induct)
  case (1 ms val lastCoef)
  then show ?case by simp
next
  case (2 coef cs val lastCoef)
  then show ?case by simp
next
  case (3 coef cs model ms val lastCoef)
  then show ?case by (simp add: algebra_simps)
qed

lemma drop_all_but_last:
  assumes "length ms = length cs + 1"
  shows "drop (length cs) ms = [last ms]"
proof -
  have "length (drop (length cs) ms) = 1"
    using assms by simp
  then obtain m where rest: "drop (length cs) ms = [m]"
    by (cases "drop (length cs) ms") auto
  have "ms \<noteq> []"
    using assms by auto
  then have "last ms = last (drop (length cs) ms)"
    using assms by simp
  then show ?thesis
    using rest by simp
qed

text \<open>The whole result of \<open>evaluate\<close> on N models and N-1 coefficients.\<close>

lemma evaluate_result:
  assumes "length (modelProxyList self) = length (coefProxyList self) + 1"
  shows "evaluate self =
     (let lastCoef = 1 - (\<Sum>c\<leftarrow>coefProxyList self. c_getVal c);
          v = (\<Sum>(c, m)\<leftarrow>zip (coefProxyList self) (modelProxyList self).
                  c_getVal c * m_getVal m)
              + lastCoef * m_getVal (last (modelProxyList self));
          n = errorCount self + 1
      in if lastCoef < 0 \<or> lastCoef > 1
         then Inr (v,
                   if n \<le> 10
                   then CoefNotInRange (1 - lastCoef) #
                          (if n = 10 then [NoMoreWillBePrinted] else [])
                   else [],
                   self\<lparr>errorCount := n\<rparr>)
         else Inr (v, [], self))"
  unfolding evaluate_def evaluate_loop_result drop_all_but_last [OF assms]
  using assms by (simp add: Let_def mult.commute)

text \<open>
  C1. For a composite of N models and N-1 coefficients, evaluate returns
  c_1*m_1 + ... + c_(N-1)*m_(N-1) + (1 - (c_1 + ... + c_(N-1)))*m_N, for all values of
  the coefficients and of the models: the last weight is not clamped, and the value
  is returned whether or not that weight lies in [0,1].
\<close>

theorem evaluate_weighted_sum:
  assumes "length (modelProxyList self) = length (coefProxyList self) + 1"
  shows "\<exists>out self'. evaluate self =
           Inr ((\<Sum>(c, m)\<leftarrow>zip (coefProxyList self) (modelProxyList self).
                    c_getVal c * m_getVal m)
                + (1 - (\<Sum>c\<leftarrow>coefProxyList self. c_getVal c))
                  * m_getVal (last (modelProxyList self)),
                out, self')"
  unfolding evaluate_result [OF assms] by (simp add: Let_def)

theorem evaluate_weighted_sum_witness:
  "length (modelProxyList (composite [model_A, model_B] [coefficient ''c'' (3/2)])) =
     length (coefProxyList (composite [model_A, model_B] [coefficient ''c'' (3/2)])) + 1
   \<and> (\<exists>out self'. evaluate (composite [model_A, model_B] [coefficient ''c'' (3/2)]) =
         Inr (1, out, self'))"
  using evaluate_weighted_sum [of "composite [model_A, model_B] [coefficient ''c'' (3/2)]"]
  by (simp add: composite_def model_A_def model_B_def component_def coefficient_def)

subsection \<open>Negotiation of the analytic integral\<close>

lemma drop_unsupported_filter:
  "drop_unsupported vs sub acc = filter (\<lambda>a. a \<in> set vs \<longrightarrow> a \<in> set sub) acc"
proof (induction vs arbitrary: acc)
  case Nil
  then show ?case by simp
next
  case (Cons v vs)
  have rm: "removeAll v acc = filter (\<lambda>a. a \<noteq> v) acc" for acc :: RooArgSet
    by (induction acc) auto
  have fnd: "(RooArgSet_find sub v = None) = (v \<notin> set sub)"
    by (auto simp: RooArgSet_find_def find_None_iff)
  show ?case
    by (auto simp: Cons.IH fnd RooArgSet_remove_def rm intro!: filter_cong)
qed

text \<open>
  Each loop does its work on every component and then meets the call through the null
  pointer: its result is what that call makes of the state the loop has reached.
\<close>

lemma first_iteration_filter:
  "first_iteration nc ms allVars ns acc =
     absArg_of_null nc
       (filter (\<lambda>a. \<forall>m\<in>set ms. a \<in> set allVars \<longrightarrow>
                      a \<in> set (snd (m_getAnalyticalIntegralWN m allVars ns))) acc)"
proof (induction ms arbitrary: acc)
  case Nil
  then show ?case by simp
next
  case (Cons m ms)
  obtain sc sv where m: "m_getAnalyticalIntegralWN m allVars ns = (sc, sv)"
    by (cases "m_getAnalyticalIntegralWN m allVars ns")
  let ?P = "\<lambda>ms a. \<forall>m\<in>set ms. a \<in> set allVars \<longrightarrow>
                      a \<in> set (snd (m_getAnalyticalIntegralWN m allVars ns))"
  have "first_iteration nc (m # ms) allVars ns acc =
        first_iteration nc ms allVars ns (filter (\<lambda>a. a \<in> set allVars \<longrightarrow> a \<in> set sv) acc)"
    by (simp add: m drop_unsupported_filter)
  also have "\<dots> = absArg_of_null nc
                     (filter (?P ms) (filter (\<lambda>a. a \<in> set allVars \<longrightarrow> a \<in> set sv) acc))"
    by (rule Cons.IH)
  also have "filter (?P ms) (filter (\<lambda>a. a \<in> set allVars \<longrightarrow> a \<in> set sv) acc) =
             filter (?P (m # ms)) acc"
    unfolding filter_filter by (rule filter_cong) (auto simp: m)
  finally show ?case .
qed

lemma second_iteration_result:
  "second_iteration nc ms vars ns sc ok out =
     absArg_of_null nc
       (sc @ map (\<lambda>m. fst (m_getAnalyticalIntegralWN m vars ns)) ms,
        ok \<and> (\<forall>m\<in>set ms. fst (m_getAnalyticalIntegralWN m vars ns) \<noteq> 0),
        out @ map (\<lambda>m. InconsistentIntegrals (m_GetName m))
                  (filter (\<lambda>m. fst (m_getAnalyticalIntegralWN m vars ns) = 0) ms))"
  by (induction ms arbitrary: sc ok out) (auto simp: Let_def)

lemma set_RooArgSet_add: "set (RooArgSet_add s vs) = set s \<union> set vs"
  by (induction vs arbitrary: s) auto

text \<open>
  Where the call through the null pointer answers null, the first iteration leaves
  the intersection of what the components report within the request, whatever the
  order of the components.
\<close>

lemma set_first_iteration:
  "first_iteration YieldsNull ms allVars ns allVars = Inr vars \<Longrightarrow>
   set vars =
     set allVars \<inter> (\<Inter>m\<in>set ms. set (snd (m_getAnalyticalIntegralWN m allVars ns)))"
  by (auto simp: first_iteration_filter absArg_of_null_def)

lemma first_iteration_set_cong:
  "set ms' = set ms \<Longrightarrow>
   first_iteration nc ms' allVars ns acc = first_iteration nc ms allVars ns acc"
  by (simp add: first_iteration_filter)

text \<open>Where the call through the null pointer traps, only the basis code test returns.\<close>

lemma getAI_Traps:
  "getAnalyticalIntegralWN Traps self allVars analVars ns =
     (if cur_basisCode self \<noteq> 0 then Inr (0, analVars, [], self) else Inl NullDeref)"
  by (simp add: getAnalyticalIntegralWN_def first_iteration_filter absArg_of_null_def)

text \<open>Where it answers null, the four ways out of the function, in one equation.\<close>

lemma getAI_YieldsNull:
  "getAnalyticalIntegralWN YieldsNull self allVars analVars ns =
     (let vars = filter (\<lambda>a. \<forall>m\<in>set (modelProxyList self).
                     a \<in> set (snd (m_getAnalyticalIntegralWN m allVars ns))) allVars in
      if cur_basisCode self \<noteq> 0 \<or> vars = [] \<or>
         (\<exists>m\<in>set (modelProxyList self). fst (m_getAnalyticalIntegralWN m vars ns) = 0)
      then Inr (0, analVars,
            if cur_basisCode self \<noteq> 0 \<or> vars = [] then []
            else map (\<lambda>m. InconsistentIntegrals (m_GetName m))
                   (filter (\<lambda>m. fst (m_getAnalyticalIntegralWN m vars ns) = 0)
                      (modelProxyList self)),
            self)
      else Inr (int (length (codeReg self)) + 1, RooArgSet_add analVars vars, [],
            self\<lparr>codeReg := codeReg self @
               [map (\<lambda>m. fst (m_getAnalyticalIntegralWN m vars ns)) (modelProxyList self)]\<rparr>))"
proof -
  have same: "filter (\<lambda>a. \<forall>m\<in>set (modelProxyList self). a \<in> set allVars \<longrightarrow>
                     a \<in> set (snd (m_getAnalyticalIntegralWN m allVars ns))) allVars =
              filter (\<lambda>a. \<forall>m\<in>set (modelProxyList self).
                     a \<in> set (snd (m_getAnalyticalIntegralWN m allVars ns))) allVars"
    by (auto intro!: filter_cong)
  show ?thesis
    unfolding getAnalyticalIntegralWN_def first_iteration_filter second_iteration_result
      absArg_of_null_def same
    by (auto simp: Let_def store_def filter_empty_conv)
qed

text \<open>
  C2. The claim is that after the first iteration the granted set is the intersection
  of what the components report, and that an empty intersection makes the negotiation
  return master code 0. The loop of the first iteration (line 499) ends by calling
  \<^verbatim>\<open>absArg()\<close> through the null pointer of the exhausted iterator, before the
  test of the size at line 516: where that call traps, the negotiation of \<open>X\<close> and
  \<open>Y\<close> with a component for \<open>X\<close> only and one for \<open>Y\<close> only, whose
  intersection is empty, stops in the null read and returns no code, and so does a
  negotiation whose intersection is not empty. Only where the call answers null the
  first one returns master code 0 and leaves the output set as it was.
\<close>

theorem empty_intersection_null_read:
  "getAnalyticalIntegralWN Traps (composite [model_B, model_D] [coefficient ''c'' (1/4)])
      [''X'', ''Y''] [''Z''] None = Inl NullDeref
   \<and> getAnalyticalIntegralWN Traps (composite [model_E, model_B] [coefficient ''c'' (1/4)])
      [''X'', ''Y''] [''Z''] None = Inl NullDeref
   \<and> getAnalyticalIntegralWN YieldsNull
      (composite [model_B, model_D] [coefficient ''c'' (1/4)]) [''X'', ''Y''] [''Z''] None =
     Inr (0, [''Z''], [], composite [model_B, model_D] [coefficient ''c'' (1/4)])"
proof (intro conjI)
  show "getAnalyticalIntegralWN Traps (composite [model_B, model_D] [coefficient ''c'' (1/4)])
      [''X'', ''Y''] [''Z''] None = Inl NullDeref"
    by (simp add: getAI_Traps composite_def)
  show "getAnalyticalIntegralWN Traps (composite [model_E, model_B] [coefficient ''c'' (1/4)])
      [''X'', ''Y''] [''Z''] None = Inl NullDeref"
    by (simp add: getAI_Traps composite_def)
  show "getAnalyticalIntegralWN YieldsNull
      (composite [model_B, model_D] [coefficient ''c'' (1/4)]) [''X'', ''Y''] [''Z''] None =
     Inr (0, [''Z''], [], composite [model_B, model_D] [coefficient ''c'' (1/4)])"
    by (simp add: getAI_YieldsNull composite_def component_def coefficient_def
          cap_only_def model_B_def model_D_def Let_def)
qed

text \<open>
  C3. The claim is that a component returning code 0 for the pruned set in the second
  iteration makes the whole negotiation return master code 0. With \<open>A\<close> integrating
  \<open>X\<close> and \<open>Y\<close> only jointly and \<open>B\<close> only \<open>X\<close>, the request of \<open>X\<close>
  and \<open>Y\<close> is pruned to \<open>X\<close>, for which \<open>A\<close> returns 0. Where the call through
  the null pointer traps, the negotiation stops at the end of the first iteration
  (line 499) and never asks \<open>A\<close> again; no code is returned. Only where the call
  answers null the negotiation returns master code 0, with the diagnostic naming
  \<open>A\<close>, the output set and the registry as they were.
\<close>

theorem inconsistent_component_null_read:
  "getAnalyticalIntegralWN Traps (composite [model_A, model_B] [coefficient ''c'' (1/4)])
      [''X'', ''Y''] [''Z''] None = Inl NullDeref
   \<and> first_iteration YieldsNull [model_A, model_B] [''X'', ''Y''] None [''X'', ''Y''] =
       Inr [''X'']
   \<and> fst (m_getAnalyticalIntegralWN model_A [''X'', ''Y''] None) = 1
   \<and> fst (m_getAnalyticalIntegralWN model_A [''X''] None) = 0
   \<and> getAnalyticalIntegralWN YieldsNull
      (composite [model_A, model_B] [coefficient ''c'' (1/4)]) [''X'', ''Y''] [''Z''] None =
     Inr (0, [''Z''], [InconsistentIntegrals ''A''],
          composite [model_A, model_B] [coefficient ''c'' (1/4)])"
proof (intro conjI)
  show "getAnalyticalIntegralWN Traps (composite [model_A, model_B] [coefficient ''c'' (1/4)])
      [''X'', ''Y''] [''Z''] None = Inl NullDeref"
    by (simp add: getAI_Traps composite_def)
  show "first_iteration YieldsNull [model_A, model_B] [''X'', ''Y''] None [''X'', ''Y''] =
       Inr [''X'']"
    by (simp add: first_iteration_filter absArg_of_null_def component_def cap_joint_def
          cap_only_def model_A_def model_B_def)
  show "fst (m_getAnalyticalIntegralWN model_A [''X'', ''Y''] None) = 1"
    by (simp add: component_def cap_joint_def model_A_def)
  show "fst (m_getAnalyticalIntegralWN model_A [''X''] None) = 0"
    by (simp add: component_def cap_joint_def model_A_def)
  show "getAnalyticalIntegralWN YieldsNull
      (composite [model_A, model_B] [coefficient ''c'' (1/4)]) [''X'', ''Y''] [''Z''] None =
     Inr (0, [''Z''], [InconsistentIntegrals ''A''],
          composite [model_A, model_B] [coefficient ''c'' (1/4)])"
    by (simp add: getAI_YieldsNull composite_def component_def coefficient_def
          cap_joint_def cap_only_def model_A_def model_B_def Let_def)
qed

text \<open>
  C10. Whatever the call through the null pointer does: a negotiation that returns
  master code 0 (basis code nonzero, empty intersection after the first iteration, or
  a code 0 in the second) leaves the caller's output set \<open>analVars\<close> as it was; a
  nonzero master code is returned only when the basis code is 0, the pruned set is
  non-empty and every component returned a nonzero code for it, and only then the
  pruned set is added to \<open>analVars\<close>.
\<close>

theorem failed_negotiation_keeps_analVars:
  "getAnalyticalIntegralWN nc self allVars analVars ns = Inr (code, av, out, self') \<longrightarrow>
     (code = 0 \<longrightarrow> av = analVars)
     \<and> (code \<noteq> 0 \<longrightarrow>
          cur_basisCode self = 0
          \<and> (\<exists>pruned. first_iteration nc (modelProxyList self) allVars ns allVars = Inr pruned
                \<and> av = RooArgSet_add analVars pruned
                \<and> pruned \<noteq> []
                \<and> (\<forall>m\<in>set (modelProxyList self).
                      fst (m_getAnalyticalIntegralWN m pruned ns) \<noteq> 0)))"
proof (cases nc)
  case Traps
  show ?thesis
    unfolding Traps getAI_Traps by (simp split: if_splits)
next
  case YieldsNull
  have pos: "int (length (codeReg self)) + 1 \<noteq> 0"
    by simp
  have first: "first_iteration YieldsNull (modelProxyList self) allVars ns allVars =
      Inr (filter (\<lambda>a. \<forall>m\<in>set (modelProxyList self).
                     a \<in> set (snd (m_getAnalyticalIntegralWN m allVars ns))) allVars)"
    by (auto simp: first_iteration_filter absArg_of_null_def intro!: filter_cong)
  show ?thesis
    unfolding YieldsNull getAI_YieldsNull first Let_def
    using pos by (auto split: if_splits)
qed

theorem failed_negotiation_keeps_analVars_witness:
  "getAnalyticalIntegralWN YieldsNull (composite [model_A, model_B] [coefficient ''c'' (1/4)])
      [''X'', ''Y''] [''Z''] None =
     Inr (0, [''Z''], [InconsistentIntegrals ''A''],
          composite [model_A, model_B] [coefficient ''c'' (1/4)])
   \<and> getAnalyticalIntegralWN YieldsNull
        (composite [model_B, model_D] [coefficient ''c'' (1/4)]) [''X'', ''Y''] [''Z''] None =
       Inr (0, [''Z''], [], composite [model_B, model_D] [coefficient ''c'' (1/4)])
   \<and> getAnalyticalIntegralWN Traps
        ((composite [model_E, model_B] [coefficient ''c'' (1/4)])\<lparr>cur_basisCode := 3\<rparr>)
        [''X'', ''Y''] [''Z''] None =
       Inr (0, [''Z''], [],
            (composite [model_E, model_B] [coefficient ''c'' (1/4)])\<lparr>cur_basisCode := 3\<rparr>)
   \<and> getAnalyticalIntegralWN YieldsNull
        (composite [model_E, model_B] [coefficient ''c'' (1/4)]) [''X'', ''Y''] [''Z''] None =
       Inr (1, [''Z'', ''X''], [],
            (composite [model_E, model_B] [coefficient ''c'' (1/4)])\<lparr>codeReg := [[5, 2]]\<rparr>)
   \<and> cur_basisCode (composite [model_E, model_B] [coefficient ''c'' (1/4)]) = 0
   \<and> first_iteration YieldsNull
        (modelProxyList (composite [model_E, model_B] [coefficient ''c'' (1/4)]))
        [''X'', ''Y''] None [''X'', ''Y''] = Inr [''X'']
   \<and> RooArgSet_add [''Z''] [''X''] = [''Z'', ''X'']"
proof -
  let ?a = "composite [model_A, model_B] [coefficient ''c'' (1/4)]"
  let ?b = "composite [model_B, model_D] [coefficient ''c'' (1/4)]"
  let ?c = "(composite [model_E, model_B] [coefficient ''c'' (1/4)])\<lparr>cur_basisCode := 3\<rparr>"
  let ?d = "composite [model_E, model_B] [coefficient ''c'' (1/4)]"
  have a: "getAnalyticalIntegralWN YieldsNull ?a [''X'', ''Y''] [''Z''] None =
             Inr (0, [''Z''], [InconsistentIntegrals ''A''], ?a)"
    by (simp add: getAI_YieldsNull composite_def component_def coefficient_def
          cap_joint_def cap_only_def model_A_def model_B_def Let_def)
  have b: "getAnalyticalIntegralWN YieldsNull ?b [''X'', ''Y''] [''Z''] None =
             Inr (0, [''Z''], [], ?b)"
    by (simp add: getAI_YieldsNull composite_def component_def coefficient_def
          cap_only_def model_B_def model_D_def Let_def)
  have c: "getAnalyticalIntegralWN Traps ?c [''X'', ''Y''] [''Z''] None =
             Inr (0, [''Z''], [], ?c)"
    by (simp add: getAI_Traps composite_def)
  have d: "getAnalyticalIntegralWN YieldsNull ?d [''X'', ''Y''] [''Z''] None =
             Inr (1, [''Z'', ''X''], [], ?d\<lparr>codeReg := [[5, 2]]\<rparr>)"
    by (simp add: getAI_YieldsNull composite_def component_def coefficient_def
          cap_all_def cap_only_def model_E_def model_B_def Let_def)
  have first: "first_iteration YieldsNull (modelProxyList ?d)
                 [''X'', ''Y''] None [''X'', ''Y''] = Inr [''X'']"
    by (simp add: first_iteration_filter absArg_of_null_def composite_def component_def
          cap_all_def cap_only_def model_E_def model_B_def)
  have basis: "cur_basisCode ?d = 0"
    by (simp add: composite_def)
  have add: "RooArgSet_add [''Z''] [''X''] = [''Z'', ''X'']"
    by simp
  note failed_negotiation_keeps_analVars
         [of YieldsNull ?a "[''X'', ''Y'']" "[''Z'']" None 0 "[''Z'']"
             "[InconsistentIntegrals ''A'']" ?a, THEN mp, OF a]
       failed_negotiation_keeps_analVars
         [of Traps ?c "[''X'', ''Y'']" "[''Z'']" None 0 "[''Z'']" "[]" ?c, THEN mp, OF c]
       failed_negotiation_keeps_analVars
         [of YieldsNull ?d "[''X'', ''Y'']" "[''Z'']" None 1 "[''Z'', ''X'']" "[]"
             "?d\<lparr>codeReg := [[5, 2]]\<rparr>", THEN mp, OF d]
  then show ?thesis
    using a b c d first basis add by (intro conjI) (rule a b c d first basis add)+
qed

subsection \<open>The registry\<close>

lemma retrieve_store:
  "retrieve (snd (store reg codes n)) (fst (store reg codes n)) = Some (take n codes)"
  by (simp add: retrieve_def store_def)

lemma retrieve_store_older:
  "retrieve reg i = Some cs \<Longrightarrow> retrieve (snd (store reg codes n)) i = Some cs"
  by (auto simp: retrieve_def store_def nth_append split: if_splits)

text \<open>
  C6. The registry round-trips: retrieving at the index that \<open>store\<close> returned
  gives the stored array back. A successful negotiation with N components stores the
  N codes of the second iteration and returns the index of that entry plus 1, so that
  retrieving at the master code minus 1 gives exactly these codes; master code 0
  denotes no entry of the registry.
\<close>

theorem registry_round_trip:
  "retrieve (snd (store reg codes (length codes))) (fst (store reg codes (length codes)))
     = Some codes
   \<and> (getAnalyticalIntegralWN nc self allVars analVars ns = Inr (code, av, out, self')
        \<and> code \<noteq> 0
      \<longrightarrow> (\<exists>pruned. first_iteration nc (modelProxyList self) allVars ns allVars = Inr pruned
            \<and> code = fst (store (codeReg self)
                           (map (\<lambda>m. fst (m_getAnalyticalIntegralWN m pruned ns))
                                (modelProxyList self))
                           (length (modelProxyList self))) + 1
            \<and> retrieve (codeReg self') (code - 1) =
                Some (map (\<lambda>m. fst (m_getAnalyticalIntegralWN m pruned ns))
                          (modelProxyList self)))
          \<and> 1 \<le> code
          \<and> retrieve (codeReg self') (0 - 1) = None)"
proof (intro conjI impI)
  show "retrieve (snd (store reg codes (length codes))) (fst (store reg codes (length codes)))
          = Some codes"
    by (simp add: retrieve_store)
next
  let ?vars = "filter (\<lambda>a. \<forall>m\<in>set (modelProxyList self).
                     a \<in> set (snd (m_getAnalyticalIntegralWN m allVars ns))) allVars"
  let ?codes = "map (\<lambda>m. fst (m_getAnalyticalIntegralWN m ?vars ns)) (modelProxyList self)"
  assume ok: "getAnalyticalIntegralWN nc self allVars analVars ns = Inr (code, av, out, self')
                \<and> code \<noteq> 0"
  then have nc: "nc = YieldsNull"
    by (cases nc) (auto simp: getAI_Traps split: if_splits)
  have first: "first_iteration nc (modelProxyList self) allVars ns allVars = Inr ?vars"
    unfolding nc
    by (auto simp: first_iteration_filter absArg_of_null_def intro!: filter_cong)
  from ok have code: "code = int (length (codeReg self)) + 1"
    and reg: "codeReg self' = codeReg self @ [?codes]"
    unfolding nc by (auto simp: getAI_YieldsNull Let_def split: if_splits)
  show "\<exists>pruned. first_iteration nc (modelProxyList self) allVars ns allVars = Inr pruned
            \<and> code = fst (store (codeReg self)
                           (map (\<lambda>m. fst (m_getAnalyticalIntegralWN m pruned ns))
                                (modelProxyList self))
                           (length (modelProxyList self))) + 1
            \<and> retrieve (codeReg self') (code - 1) =
                Some (map (\<lambda>m. fst (m_getAnalyticalIntegralWN m pruned ns))
                          (modelProxyList self))"
    by (intro exI [of _ ?vars]) (simp add: first code reg store_def retrieve_def)
  show "1 \<le> code"
    by (simp add: code)
  show "retrieve (codeReg self') (0 - 1) = None"
    by (simp add: retrieve_def)
qed

theorem registry_round_trip_witness:
  "getAnalyticalIntegralWN YieldsNull (composite [model_E, model_B] [coefficient ''c'' (1/4)])
      [''X'', ''Y''] [] None =
     Inr (1, [''X''], [],
          (composite [model_E, model_B] [coefficient ''c'' (1/4)])\<lparr>codeReg := [[5, 2]]\<rparr>)
   \<and> retrieve [[5, 2]] (1 - 1) = Some [5, 2]
   \<and> retrieve [[5, 2]] (0 - 1) = None
   \<and> retrieve (snd (store [] [5, 2] (length [5, 2 :: int])))
              (fst (store [] [5, 2] (length [5, 2 :: int]))) = Some [5, 2]"
proof -
  let ?s = "composite [model_E, model_B] [coefficient ''c'' (1/4)]"
  have res: "getAnalyticalIntegralWN YieldsNull ?s [''X'', ''Y''] [] None =
               Inr (1, [''X''], [], ?s\<lparr>codeReg := [[5, 2]]\<rparr>)"
    by (simp add: getAI_YieldsNull composite_def component_def coefficient_def
          cap_all_def cap_only_def model_E_def model_B_def Let_def)
  have r1: "retrieve [[5, 2]] (1 - 1) = Some [5, 2]"
    by (simp add: retrieve_def)
  note rt = registry_round_trip
         [of "[]" "[5, 2]" YieldsNull ?s "[''X'', ''Y'']" "[]" None 1 "[''X'']" "[]"
             "?s\<lparr>codeReg := [[5, 2]]\<rparr>"]
  note negotiated = rt [THEN conjunct2, THEN mp, OF conjI [OF res one_neq_zero]]
  have r0: "retrieve [[5, 2]] (0 - 1) = None"
    using negotiated by simp
  have st: "retrieve (snd (store [] [5, 2] (length [5, 2 :: int])))
              (fst (store [] [5, 2] (length [5, 2 :: int]))) = Some [5, 2]"
    by (rule rt [THEN conjunct1])
  show ?thesis
    by (intro conjI) (rule res r1 r0 st)+
qed

subsection \<open>Construction\<close>

lemma ctor_model_loop_same:
  "\<forall>m\<in>set ms. m_convVar m = r \<Longrightarrow> ctor_model_loop ms (Some r) acc = Inr (acc @ ms)"
  by (induction ms arbitrary: acc) auto

lemma ctor_coef_loop_append: "ctor_coef_loop cs acc = acc @ cs"
  by (induction cs arbitrary: acc) auto

lemma ctor_succeeds:
  assumes len: "length modelList = length coefList + 1"
    and var: "\<forall>m\<in>set modelList. m_convVar m = v"
  shows "RooAddModel_ctor name title modelList coefList =
           Inr \<lparr>GetName = name, GetTitle = title, x = v,
                modelProxyList = modelList, coefProxyList = coefList,
                isCopy = False, basis = None, cur_basisCode = 0,
                errorCount = 0, codeReg = []\<rparr>"
proof (cases modelList)
  case Nil
  with len show ?thesis by simp
next
  case (Cons m ms)
  have "ctor_model_loop modelList None [] = Inr modelList"
    using var by (simp add: Cons ctor_model_loop_same)
  then show ?thesis
    using len var
    by (simp add: RooAddModel_ctor_def RooResolutionModel_ctor_def ctor_coef_loop_append Cons)
qed

text \<open>
  C7. Construction from raw lists fails whenever the number of models is not the
  number of coefficients plus one: no object is produced, and on a non-empty model
  list the failure is the assertion after the message about the count. With the count
  right, and the models sharing one convolution variable, construction succeeds and
  the object holds the two lists. So 3 models with 3 coefficients fail and 3 models
  with 2 coefficients succeed.
\<close>

theorem ctor_count_check:
  "(length modelList \<noteq> length coefList + 1 \<longrightarrow>
      (\<exists>e. RooAddModel_ctor name title modelList coefList = Inl e)
      \<and> (modelList \<noteq> [] \<longrightarrow>
           RooAddModel_ctor name title modelList coefList = Inl (AssertFailed CountMismatch)))
   \<and> (length modelList = length coefList + 1
        \<and> (\<forall>m\<in>set modelList. m_convVar m = v) \<longrightarrow>
      (\<exists>self. RooAddModel_ctor name title modelList coefList = Inr self
         \<and> modelProxyList self = modelList \<and> coefProxyList self = coefList
         \<and> isCopy self = False))"
proof (intro conjI impI)
  assume ne: "length modelList \<noteq> length coefList + 1"
  then show "\<exists>e. RooAddModel_ctor name title modelList coefList = Inl e"
    by (cases modelList) (auto simp: RooAddModel_ctor_def)
  show "RooAddModel_ctor name title modelList coefList = Inl (AssertFailed CountMismatch)"
    if "modelList \<noteq> []"
    using that ne by (cases modelList) (auto simp: RooAddModel_ctor_def)
next
  assume ok: "length modelList = length coefList + 1 \<and> (\<forall>m\<in>set modelList. m_convVar m = v)"
  then have len: "length modelList = length coefList + 1"
    and var: "\<forall>m\<in>set modelList. m_convVar m = v"
    by simp_all
  show "\<exists>self. RooAddModel_ctor name title modelList coefList = Inr self
         \<and> modelProxyList self = modelList \<and> coefProxyList self = coefList
         \<and> isCopy self = False"
    unfolding ctor_succeeds [OF len var] by simp
qed

theorem ctor_count_check_witness:
  "RooAddModel_ctor ''sum'' ''t'' [model_A, model_B, model_E]
      [coefficient ''c1'' (1/4), coefficient ''c2'' (1/4), coefficient ''c3'' (1/4)] =
     Inl (AssertFailed CountMismatch)
   \<and> (\<exists>self. RooAddModel_ctor ''sum'' ''t'' [model_A, model_B, model_E]
                [coefficient ''c1'' (1/4), coefficient ''c2'' (1/4)] = Inr self
         \<and> modelProxyList self = [model_A, model_B, model_E]
         \<and> coefProxyList self = [coefficient ''c1'' (1/4), coefficient ''c2'' (1/4)]
         \<and> isCopy self = False)"
proof -
  have var: "\<forall>m\<in>set [model_A, model_B, model_E]. m_convVar m = 7"
    by (simp add: composite_def component_def coefficient_def cap_joint_def model_A_def
          cap_only_def model_B_def cap_all_def model_E_def)
  from ctor_count_check
         [of "[model_A, model_B, model_E]"
             "[coefficient ''c1'' (1/4), coefficient ''c2'' (1/4), coefficient ''c3'' (1/4)]"
             "''sum''" "''t''" 7]
       ctor_count_check
         [of "[model_A, model_B, model_E]"
             "[coefficient ''c1'' (1/4), coefficient ''c2'' (1/4)]" "''sum''" "''t''" 7]
       var
  show ?thesis
    by simp
qed

subsection \<open>basisCode\<close>

lemma basisCode_loop_first:
  "basisCode_loop Bool_t name ms True code =
     (if ms = [] then code else Bool_t (m_basisCode (last ms) name))"
  by (induction ms arbitrary: code) (auto simp: Let_def)

lemma basisCode_last:
  "basisCode Bool_t self name =
     (if modelProxyList self = [] then Bool_t 0
      else Bool_t (m_basisCode (last (modelProxyList self)) name))"
  by (simp add: basisCode_def basisCode_loop_first)

text \<open>
  C4. The claim, with the comment in the source, is that \<open>basisCode\<close> returns the
  first component's code when every component reports a nonzero code, and 0 when some
  component reports 0. The loop never clears \<open>first\<close> and keeps \<open>code\<close> in a
  \<^verbatim>\<open>Bool_t\<close>, so the result is the code of the last component alone, converted to
  \<^verbatim>\<open>Bool_t\<close>. With component codes 0 and 5 it returns 1 (5 for an
  \<^verbatim>\<open>unsigned char\<close>) where the claim says 0, and with codes 2 and 3 it returns 1
  (or 3) where the claim says 2.
\<close>

theorem basisCode_follows_last_component:
  "basisCode Bool_t_bool
      (composite [model_bc ''A'' 0, model_bc ''B'' 5] [coefficient ''c'' (1/4)]) ''exp'' = 1
   \<and> basisCode Bool_t_uchar
      (composite [model_bc ''A'' 0, model_bc ''B'' 5] [coefficient ''c'' (1/4)]) ''exp'' = 5
   \<and> basisCode Bool_t_bool
      (composite [model_bc ''A'' 2, model_bc ''B'' 3] [coefficient ''c'' (1/4)]) ''exp'' = 1
   \<and> basisCode Bool_t_uchar
      (composite [model_bc ''A'' 2, model_bc ''B'' 3] [coefficient ''c'' (1/4)]) ''exp'' = 3"
  by (simp add: basisCode_def Bool_t_bool_def Bool_t_uchar_def composite_def component_def
        coefficient_def cap_all_def model_bc_def)

subsection \<open>The two normalisations\<close>

lemma getNorm_loop_result:
  "getNorm_loop nset cs ms nrm lastCoef =
     (if length cs \<le> length ms
      then Inr (nrm + (\<Sum>(c, m)\<leftarrow>zip cs ms. c_getVal c * m_getNorm m nset),
                lastCoef - (\<Sum>c\<leftarrow>cs. c_getVal c),
                drop (length cs) ms)
      else Inl NullDeref)"
proof (induction nset cs ms nrm lastCoef rule: getNorm_loop.induct)
  case (1 nset ms nrm lastCoef)
  then show ?case by simp
next
  case (2 nset coef cs nrm lastCoef)
  then show ?case by simp
next
  case (3 nset coef cs model ms nrm lastCoef)
  then show ?case by (simp add: algebra_simps)
qed

lemma getNormSpecial_loop_result:
  "getNormSpecial_loop nset cs ms nrm lastCoef =
     (if length cs \<le> length ms
      then Inr (nrm + (\<Sum>(c, m)\<leftarrow>zip cs ms. c_getVal c * m_getNormSpecial m nset),
                lastCoef - (\<Sum>c\<leftarrow>cs. c_getVal c),
                drop (length cs) ms)
      else Inl NullDeref)"
proof (induction nset cs ms nrm lastCoef rule: getNormSpecial_loop.induct)
  case (1 nset ms nrm lastCoef)
  then show ?case by simp
next
  case (2 nset coef cs nrm lastCoef)
  then show ?case by simp
next
  case (3 nset coef cs model ms nrm lastCoef)
  then show ?case by (simp add: algebra_simps)
qed

lemma special_sum_agrees:
  assumes "\<forall>m\<in>set ms. m_getNormSpecial m nset = m_getNorm m nset"
  shows "(\<Sum>(c, m)\<leftarrow>zip cs ms. c_getVal c * m_getNormSpecial m nset) =
         (\<Sum>(c, m)\<leftarrow>zip cs ms. c_getVal c * m_getNorm m nset)"
proof -
  have "map (\<lambda>(c, m). c_getVal c * m_getNormSpecial m nset) (zip cs ms) =
        map (\<lambda>(c, m). c_getVal c * m_getNorm m nset) (zip cs ms)"
    using assms by (auto dest: set_zip_rightD)
  then show ?thesis by (rule arg_cong)
qed

lemma getNormSpecial_agrees:
  assumes agree: "\<forall>m\<in>set (modelProxyList self). m_getNormSpecial m nset = m_getNorm m nset"
  shows "getNormSpecial pdfNorm self nset = getNorm pdfNorm self nset"
proof (cases "basis self")
  case None
  then show ?thesis by (simp add: getNormSpecial_def getNorm_def)
next
  case (Some b)
  let ?cs = "coefProxyList self" and ?ms = "modelProxyList self"
  have rest: "m_getNormSpecial m nset = m_getNorm m nset"
    if "drop (length ?cs) ?ms = m # r" for m r
  proof -
    have "m \<in> set (drop (length ?cs) ?ms)"
      using that by simp
    then have "m \<in> set ?ms"
      by (rule in_set_dropD)
    with agree show ?thesis by blast
  qed
  show ?thesis
    by (auto simp: getNormSpecial_def getNorm_def Some getNormSpecial_loop_result
          getNorm_loop_result special_sum_agrees [OF agree] rest split: list.splits)
qed

text \<open>
  C9, as stated for every composite, fails: \<open>getNormSpecial\<close> sums the
  components' \<^verbatim>\<open>getNormSpecial\<close>, not their \<^verbatim>\<open>getNorm\<close>. With a basis, the
  coefficient 1/4 and a first component whose \<^verbatim>\<open>getNorm\<close> is 3 and whose
  \<^verbatim>\<open>getNormSpecial\<close> is 5/2 (the second has 5 for both), \<open>getNorm\<close> returns
  9/2 and \<open>getNormSpecial\<close> returns 35/8.
\<close>

theorem getNormSpecial_differs:
  "getNorm (\<lambda>_. 1)
      ((composite [model_S, model_B] [coefficient ''c'' (1/4)])\<lparr>basis := Some basis_exp\<rparr>)
      None = Inr (9/2, [])
   \<and> getNormSpecial (\<lambda>_. 1)
      ((composite [model_S, model_B] [coefficient ''c'' (1/4)])\<lparr>basis := Some basis_exp\<rparr>)
      None = Inr (35/8, [])
   \<and> getNormSpecial (\<lambda>_. 1)
      ((composite [model_S, model_B] [coefficient ''c'' (1/4)])\<lparr>basis := Some basis_exp\<rparr>)
      None \<noteq>
     getNorm (\<lambda>_. 1)
      ((composite [model_S, model_B] [coefficient ''c'' (1/4)])\<lparr>basis := Some basis_exp\<rparr>)
      None"
proof -
  let ?s = "(composite [model_S, model_B] [coefficient ''c'' (1/4)])\<lparr>basis := Some basis_exp\<rparr>"
  have n: "getNorm (\<lambda>_. 1) ?s None = Inr (9/2, [])"
    by (simp add: getNorm_def composite_def component_def coefficient_def cap_all_def
          cap_only_def model_S_def model_B_def)
  have sp: "getNormSpecial (\<lambda>_. 1) ?s None = Inr (35/8, [])"
    by (simp add: getNormSpecial_def composite_def component_def coefficient_def cap_all_def
          cap_only_def model_S_def model_B_def)
  have "getNormSpecial (\<lambda>_. 1) ?s None \<noteq> getNorm (\<lambda>_. 1) ?s None"
    unfolding n sp by simp
  with n sp show ?thesis
    by (intro conjI)
qed

text \<open>
  C9, amended. Without a basis both \<open>getNorm\<close> and \<open>getNormSpecial\<close> return the
  generic normalisation of the base class. With a basis each is the same
  running-coefficient weighted sum, \<open>getNorm\<close> over the components' \<open>getNorm\<close>
  and \<open>getNormSpecial\<close> over the components' \<open>getNormSpecial\<close>; the two results
  are equal for a normalisation set whenever every component's \<open>getNormSpecial\<close>
  equals its \<open>getNorm\<close> for that set.
\<close>

theorem getNormSpecial_eq_getNorm:
  "((\<forall>m\<in>set (modelProxyList self). m_getNormSpecial m nset = m_getNorm m nset) \<longrightarrow>
      getNormSpecial pdfNorm self nset = getNorm pdfNorm self nset)
   \<and> (basis self = None \<longrightarrow>
        getNorm pdfNorm self nset = Inr (pdfNorm nset, [])
        \<and> getNormSpecial pdfNorm self nset = Inr (pdfNorm nset, []))
   \<and> (basis self \<noteq> None
        \<and> length (modelProxyList self) = length (coefProxyList self) + 1 \<longrightarrow>
        (\<exists>out. getNorm pdfNorm self nset =
           Inr ((\<Sum>(c, m)\<leftarrow>zip (coefProxyList self) (modelProxyList self).
                    c_getVal c * m_getNorm m nset)
                + (1 - (\<Sum>c\<leftarrow>coefProxyList self. c_getVal c))
                  * m_getNorm (last (modelProxyList self)) nset, out))
        \<and> (\<exists>out. getNormSpecial pdfNorm self nset =
           Inr ((\<Sum>(c, m)\<leftarrow>zip (coefProxyList self) (modelProxyList self).
                    c_getVal c * m_getNormSpecial m nset)
                + (1 - (\<Sum>c\<leftarrow>coefProxyList self. c_getVal c))
                  * m_getNormSpecial (last (modelProxyList self)) nset, out)))"
proof (intro conjI impI)
  show "getNormSpecial pdfNorm self nset = getNorm pdfNorm self nset"
    if "\<forall>m\<in>set (modelProxyList self). m_getNormSpecial m nset = m_getNorm m nset"
    using that by (rule getNormSpecial_agrees)
next
  assume "basis self = None"
  then show "getNorm pdfNorm self nset = Inr (pdfNorm nset, [])"
    and "getNormSpecial pdfNorm self nset = Inr (pdfNorm nset, [])"
    by (simp_all add: getNorm_def getNormSpecial_def)
next
  assume wf: "basis self \<noteq> None
        \<and> length (modelProxyList self) = length (coefProxyList self) + 1"
  then obtain b where b: "basis self = Some b"
    by auto
  from wf have len: "length (modelProxyList self) = length (coefProxyList self) + 1"
    by simp
  show "\<exists>out. getNorm pdfNorm self nset =
           Inr ((\<Sum>(c, m)\<leftarrow>zip (coefProxyList self) (modelProxyList self).
                    c_getVal c * m_getNorm m nset)
                + (1 - (\<Sum>c\<leftarrow>coefProxyList self. c_getVal c))
                  * m_getNorm (last (modelProxyList self)) nset, out)"
    unfolding getNorm_def b getNorm_loop_result drop_all_but_last [OF len]
    using len by (simp add: mult.commute)
  show "\<exists>out. getNormSpecial pdfNorm self nset =
           Inr ((\<Sum>(c, m)\<leftarrow>zip (coefProxyList self) (modelProxyList self).
                    c_getVal c * m_getNormSpecial m nset)
                + (1 - (\<Sum>c\<leftarrow>coefProxyList self. c_getVal c))
                  * m_getNormSpecial (last (modelProxyList self)) nset, out)"
    unfolding getNormSpecial_def b getNormSpecial_loop_result drop_all_but_last [OF len]
    using len by (simp add: mult.commute)
qed

theorem getNormSpecial_eq_getNorm_witness:
  "m_getNormSpecial model_A None = m_getNorm model_A None
   \<and> m_getNormSpecial model_B None = m_getNorm model_B None
   \<and> getNormSpecial (\<lambda>_. 1)
        ((composite [model_A, model_B] [coefficient ''c'' (1/4)])\<lparr>basis := Some basis_exp\<rparr>)
        None = Inr (9/2, [])
   \<and> getNorm (\<lambda>_. 1)
        ((composite [model_A, model_B] [coefficient ''c'' (1/4)])\<lparr>basis := Some basis_exp\<rparr>)
        None = Inr (9/2, [])
   \<and> getNorm (\<lambda>_. 1) (composite [model_A, model_B] [coefficient ''c'' (1/4)]) None =
       Inr (1, [])
   \<and> getNormSpecial (\<lambda>_. 1) (composite [model_A, model_B] [coefficient ''c'' (1/4)]) None =
       Inr (1, [])"
proof -
  let ?s = "composite [model_A, model_B] [coefficient ''c'' (1/4)]"
  let ?t = "?s\<lparr>basis := Some basis_exp\<rparr>"
  have agree: "\<forall>m\<in>set (modelProxyList ?t). m_getNormSpecial m None = m_getNorm m None"
    by (simp add: composite_def component_def coefficient_def cap_joint_def model_A_def
          cap_only_def model_B_def basis_exp_def)
  have nob: "basis ?s = None"
    by (simp add: composite_def)
  have val: "getNorm (\<lambda>_. 1) ?t None = Inr (9/2, [])"
    by (simp add: getNorm_def composite_def component_def coefficient_def cap_joint_def
          model_A_def cap_only_def model_B_def basis_exp_def)
  have each: "m_getNormSpecial model_A None = m_getNorm model_A None
              \<and> m_getNormSpecial model_B None = m_getNorm model_B None"
    by (simp add: composite_def component_def coefficient_def cap_joint_def model_A_def
          cap_only_def model_B_def basis_exp_def)
  from getNormSpecial_eq_getNorm [of ?t None "\<lambda>_. 1"]
       getNormSpecial_eq_getNorm [of ?s None "\<lambda>_. 1"] agree nob val each
  show ?thesis
    by simp
qed

subsection \<open>Convolution with a basis function\<close>

lemma convolution_loop_map:
  "\<forall>m\<in>set ms. \<exists>k. cv m = Some k \<Longrightarrow>
   convolution_loop cv ms acc = Inr (acc @ map (\<lambda>m. the (cv m)) ms)"
  by (induction ms arbitrary: acc) auto

lemma convolution_result:
  assumes match: "findServer b 0 = Some (x self)"
    and len: "length (modelProxyList self) = length (coefProxyList self) + 1"
    and comp: "\<forall>m\<in>set (modelProxyList self).
                 \<exists>k. m_convolution b owner m = Some k \<and> m_convVar k = v"
  shows "convolution m_convolution self b owner =
     Inr ([], Some
       \<lparr>GetName = GetName self @ ''_conv_'' @ f_GetName b @ ''_['' @ owner @ '']'',
        GetTitle = GetTitle self @ '' convoluted with basis function '' @ f_GetName b,
        x = v,
        modelProxyList = map (\<lambda>m. the (m_convolution b owner m)) (modelProxyList self),
        coefProxyList = coefProxyList self,
        isCopy = False, basis = Some b, cur_basisCode = 0,
        errorCount = 0, codeReg = []\<rparr>)"
proof -
  let ?ms = "map (\<lambda>m. the (m_convolution b owner m)) (modelProxyList self)"
  have some: "\<forall>m\<in>set (modelProxyList self). \<exists>k. m_convolution b owner m = Some k"
    using comp by blast
  have loop: "convolution_loop (m_convolution b owner) (modelProxyList self) [] = Inr ?ms"
    using convolution_loop_map [OF some, of "[]"] by simp
  have length: "length ?ms = length (coefProxyList self) + 1"
    using len by simp
  have var: "\<forall>m\<in>set ?ms. m_convVar m = v"
    using comp by fastforce
  show ?thesis
    unfolding convolution_def match loop Let_def
    by (simp add: ctor_succeeds [OF length var] changeBasis_def)
qed

text \<open>
  C8. When the first server of the basis function is the composite's convolution
  variable, and each of the N components returns its own convolution, all on one
  convolution variable, \<open>convolution\<close> returns a new composite, not a copy, tagged
  with the basis, of the N convolved components in order with the original N-1
  coefficients; its \<open>evaluate\<close> is the weighted sum of the convolved components
  under these coefficients, which for two models \<open>m1\<close>, \<open>m2\<close> and one coefficient
  \<open>c\<close> is c*conv(m1) + (1-c)*conv(m2), for every value of \<open>c\<close>. When the first
  server of the basis is another variable, the function prints the diagnostic and
  returns the null pointer.
\<close>

theorem convolution_composite:
  "(findServer b 0 = Some (x self)
      \<and> length (modelProxyList self) = length (coefProxyList self) + 1
      \<and> (\<forall>m\<in>set (modelProxyList self).
            \<exists>k. m_convolution b owner m = Some k \<and> m_convVar k = v) \<longrightarrow>
      (\<exists>r. convolution m_convolution self b owner = Inr ([], Some r)
         \<and> modelProxyList r = map (\<lambda>m. the (m_convolution b owner m)) (modelProxyList self)
         \<and> coefProxyList r = coefProxyList self
         \<and> basis r = Some b \<and> isCopy r = False
         \<and> (\<exists>out r'. evaluate r =
               Inr ((\<Sum>(c, m)\<leftarrow>zip (coefProxyList self) (modelProxyList r).
                        c_getVal c * m_getVal m)
                    + (1 - (\<Sum>c\<leftarrow>coefProxyList self. c_getVal c))
                      * m_getVal (last (modelProxyList r)),
                    out, r'))))
   \<and> (findServer b 0 = Some (x self)
        \<and> modelProxyList self = [m1, m2] \<and> coefProxyList self = [c]
        \<and> m_convolution b owner m1 = Some k1 \<and> m_convolution b owner m2 = Some k2
        \<and> m_convVar k1 = m_convVar k2 \<longrightarrow>
        (\<exists>r. convolution m_convolution self b owner = Inr ([], Some r)
           \<and> modelProxyList r = [k1, k2] \<and> coefProxyList r = [c]
           \<and> (\<exists>out r'. evaluate r =
                 Inr (c_getVal c * m_getVal k1 + (1 - c_getVal c) * m_getVal k2, out, r'))))
   \<and> (findServer b 0 = Some w \<and> w \<noteq> x self \<longrightarrow>
        convolution m_convolution self b owner = Inr ([ConvParamMismatch], None))"
proof (intro conjI impI)
  assume h: "findServer b 0 = Some (x self)
      \<and> length (modelProxyList self) = length (coefProxyList self) + 1
      \<and> (\<forall>m\<in>set (modelProxyList self).
            \<exists>k. m_convolution b owner m = Some k \<and> m_convVar k = v)"
  let ?r = "\<lparr>GetName = GetName self @ ''_conv_'' @ f_GetName b @ ''_['' @ owner @ '']'',
        GetTitle = GetTitle self @ '' convoluted with basis function '' @ f_GetName b,
        x = v,
        modelProxyList = map (\<lambda>m. the (m_convolution b owner m)) (modelProxyList self),
        coefProxyList = coefProxyList self,
        isCopy = False, basis = Some b, cur_basisCode = 0,
        errorCount = 0, codeReg = []\<rparr>"
  from h have res: "convolution m_convolution self b owner = Inr ([], Some ?r)"
    by (intro convolution_result) simp_all
  have len: "length (modelProxyList ?r) = length (coefProxyList ?r) + 1"
    using h by simp
  have ev: "\<exists>out r'. evaluate ?r =
               Inr ((\<Sum>(c, m)\<leftarrow>zip (coefProxyList self) (modelProxyList ?r).
                        c_getVal c * m_getVal m)
                    + (1 - (\<Sum>c\<leftarrow>coefProxyList self. c_getVal c))
                      * m_getVal (last (modelProxyList ?r)),
                    out, r')"
    unfolding evaluate_result [OF len] by (simp add: Let_def)
  show "\<exists>r. convolution m_convolution self b owner = Inr ([], Some r)
         \<and> modelProxyList r = map (\<lambda>m. the (m_convolution b owner m)) (modelProxyList self)
         \<and> coefProxyList r = coefProxyList self
         \<and> basis r = Some b \<and> isCopy r = False
         \<and> (\<exists>out r'. evaluate r =
               Inr ((\<Sum>(c, m)\<leftarrow>zip (coefProxyList self) (modelProxyList r).
                        c_getVal c * m_getVal m)
                    + (1 - (\<Sum>c\<leftarrow>coefProxyList self. c_getVal c))
                      * m_getVal (last (modelProxyList r)),
                    out, r'))"
    using ev by (intro exI [of _ ?r]) (simp add: res)
next
  assume h: "findServer b 0 = Some (x self)
        \<and> modelProxyList self = [m1, m2] \<and> coefProxyList self = [c]
        \<and> m_convolution b owner m1 = Some k1 \<and> m_convolution b owner m2 = Some k2
        \<and> m_convVar k1 = m_convVar k2"
  let ?r = "\<lparr>GetName = GetName self @ ''_conv_'' @ f_GetName b @ ''_['' @ owner @ '']'',
        GetTitle = GetTitle self @ '' convoluted with basis function '' @ f_GetName b,
        x = m_convVar k1,
        modelProxyList = map (\<lambda>m. the (m_convolution b owner m)) (modelProxyList self),
        coefProxyList = coefProxyList self,
        isCopy = False, basis = Some b, cur_basisCode = 0,
        errorCount = 0, codeReg = []\<rparr>"
  from h have res: "convolution m_convolution self b owner = Inr ([], Some ?r)"
    by (intro convolution_result) simp_all
  have len: "length (modelProxyList ?r) = length (coefProxyList ?r) + 1"
    using h by simp
  have ev: "\<exists>out r'. evaluate ?r =
      Inr (c_getVal c * m_getVal k1 + (1 - c_getVal c) * m_getVal k2, out, r')"
    unfolding evaluate_result [OF len] using h by (simp add: Let_def)
  show "\<exists>r. convolution m_convolution self b owner = Inr ([], Some r)
           \<and> modelProxyList r = [k1, k2] \<and> coefProxyList r = [c]
           \<and> (\<exists>out r'. evaluate r =
                 Inr (c_getVal c * m_getVal k1 + (1 - c_getVal c) * m_getVal k2, out, r'))"
    using ev h by (intro exI [of _ ?r]) (simp add: res)
next
  assume "findServer b 0 = Some w \<and> w \<noteq> x self"
  then show "convolution m_convolution self b owner = Inr ([ConvParamMismatch], None)"
    by (simp add: convolution_def)
qed

theorem convolution_composite_witness:
  "findServer basis_exp 0 = Some (x (composite [model_A, model_B] [coefficient ''c'' (3/2)]))
   \<and> (\<exists>r. convolution conv_of (composite [model_A, model_B] [coefficient ''c'' (3/2)])
              basis_exp ''pdf'' = Inr ([], Some r)
         \<and> map m_GetName (modelProxyList r) = [''A_conv_exp_[pdf]'', ''B_conv_exp_[pdf]'']
         \<and> coefProxyList r = [coefficient ''c'' (3/2)]
         \<and> (\<exists>out r'. evaluate r = Inr (10, out, r')))
   \<and> findServer basis_other 0 = Some 8
   \<and> convolution conv_of (composite [model_A, model_B] [coefficient ''c'' (3/2)])
        basis_other ''pdf'' = Inr ([ConvParamMismatch], None)"
proof -
  let ?s = "composite [model_A, model_B] [coefficient ''c'' (3/2)]"
  have match: "findServer basis_exp 0 = Some (x ?s)"
    by (simp add: findServer_def composite_def component_def coefficient_def cap_joint_def
          model_A_def cap_only_def model_B_def basis_exp_def basis_other_def)
  have other: "findServer basis_other 0 = Some 8 \<and> 8 \<noteq> x ?s"
    by (simp add: findServer_def composite_def component_def coefficient_def cap_joint_def
          model_A_def cap_only_def model_B_def basis_exp_def basis_other_def)
  have two: "modelProxyList ?s = [model_A, model_B] \<and> coefProxyList ?s = [coefficient ''c'' (3/2)]"
    by (simp add: composite_def)
  have k: "conv_of basis_exp ''pdf'' model_A =
             Some (model_A\<lparr>m_GetName := ''A_conv_exp_[pdf]'', m_getVal := 20\<rparr>)
           \<and> conv_of basis_exp ''pdf'' model_B =
             Some (model_B\<lparr>m_GetName := ''B_conv_exp_[pdf]'', m_getVal := 40\<rparr>)"
    by (simp add: conv_of_def composite_def component_def coefficient_def cap_joint_def
          model_A_def cap_only_def model_B_def basis_exp_def basis_other_def)
  have var: "m_convVar (model_A\<lparr>m_GetName := ''A_conv_exp_[pdf]'', m_getVal := 20\<rparr>) =
             m_convVar (model_B\<lparr>m_GetName := ''B_conv_exp_[pdf]'', m_getVal := 40\<rparr>)"
    by (simp add: composite_def component_def coefficient_def cap_joint_def model_A_def
          cap_only_def model_B_def basis_exp_def basis_other_def)
  from convolution_composite
         [of basis_exp ?s conv_of "''pdf''" 7 model_A model_B "coefficient ''c'' (3/2)"
             "model_A\<lparr>m_GetName := ''A_conv_exp_[pdf]'', m_getVal := 20\<rparr>"
             "model_B\<lparr>m_GetName := ''B_conv_exp_[pdf]'', m_getVal := 40\<rparr>" 8]
       convolution_composite [of basis_other ?s conv_of "''pdf''" 7 model_A model_B
             "coefficient ''c'' (3/2)" model_A model_B 8]
       match other two k var
  show ?thesis
    by (auto simp: coefficient_def)
qed

subsection \<open>The warning about the last coefficient\<close>

lemma analyticalIntegralWN_loop_result:
  "length cs \<le> length ms \<Longrightarrow> i + length cs \<le> length subCode \<Longrightarrow>
   analyticalIntegralWN_loop nc subCode ns cs ms i val lastCoef =
     absArg_of_null nc
       (val + (\<Sum>(c, m, code)\<leftarrow>zip cs (zip ms (drop i subCode)).
                  m_analyticalIntegralWN m code ns * c_getVal c),
        lastCoef - (\<Sum>c\<leftarrow>cs. c_getVal c),
        i + length cs,
        drop (length cs) ms)"
proof (induction nc subCode ns cs ms i val lastCoef rule: analyticalIntegralWN_loop.induct)
  case (1 nc subCode normSet ms i val lastCoef)
  then show ?case by simp
next
  case (2 nc subCode normSet coef cs i val lastCoef)
  then show ?case by simp
next
  case (3 nc subCode normSet coef cs model ms i val lastCoef)
  from "3.prems" have i: "i < length subCode"
    by simp
  then have split: "drop i subCode = subCode ! i # drop (Suc i) subCode"
    by (simp add: Cons_nth_drop_Suc)
  from "3.prems" have "length cs \<le> length ms" and "i + 1 + length cs \<le> length subCode"
    by simp_all
  with "3.IH" [OF i refl] show ?case
    using i by (simp add: split Let_def algebra_simps)
qed

text \<open>
  The analytic integral under a stored code: where the call through the null pointer
  at the end of the coefficient loop traps, nothing is returned.
\<close>

lemma analyticalIntegralWN_Traps:
  assumes len: "length (modelProxyList self) = length (coefProxyList self) + 1"
    and code: "code \<noteq> 0"
    and reg: "retrieve (codeReg self) (code - 1) = Some subCode"
    and sub: "length subCode = length (modelProxyList self)"
  shows "analyticalIntegralWN Traps self code ns = Inl NullDeref"
proof -
  have le: "length (coefProxyList self) \<le> length (modelProxyList self)"
    and fit: "0 + length (coefProxyList self) \<le> length subCode"
    using len sub by simp_all
  show ?thesis
    using code
    by (simp add: analyticalIntegralWN_def reg analyticalIntegralWN_loop_result [OF le fit]
          absArg_of_null_def)
qed

text \<open>Where it answers null, the whole result of the analytic integral.\<close>

lemma analyticalIntegralWN_YieldsNull:
  assumes len: "length (modelProxyList self) = length (coefProxyList self) + 1"
    and code: "code \<noteq> 0"
    and reg: "retrieve (codeReg self) (code - 1) = Some subCode"
    and sub: "length subCode = length (modelProxyList self)"
  shows "analyticalIntegralWN YieldsNull self code ns =
     (let lastCoef = 1 - (\<Sum>c\<leftarrow>coefProxyList self. c_getVal c)
      in Inr ((\<Sum>(c, m, k)\<leftarrow>zip (coefProxyList self) (zip (modelProxyList self) subCode).
                  m_analyticalIntegralWN m k ns * c_getVal c)
              + m_analyticalIntegralWN (last (modelProxyList self))
                  (subCode ! length (coefProxyList self)) ns * lastCoef,
              if lastCoef < 0 \<or> lastCoef > 1 then [CoefNotInRange (1 - lastCoef)] else [],
              self))"
proof -
  have le: "length (coefProxyList self) \<le> length (modelProxyList self)"
    and fit: "0 + length (coefProxyList self) \<le> length subCode"
    using len sub by simp_all
  show ?thesis
    using code len sub
    by (simp add: analyticalIntegralWN_def reg analyticalIntegralWN_loop_result [OF le fit]
          absArg_of_null_def drop_all_but_last [OF len] Let_def)
qed

lemma integral_calls_result:
  assumes "analyticalIntegralWN nc self code ns = Inr (v, out, self)"
  shows "integral_calls nc n self code ns = Inr (replicate n (v, out), self)"
  using assms by (induction n) simp_all

text \<open>
  Repeated calls of \<open>evaluate\<close> while the lists stay as they are: \<open>f n\<close> is what
  the call prints that brings the counter to \<open>n\<close>.
\<close>

lemma evaluate_calls_counter:
  assumes step: "\<And>s. modelProxyList s = ms \<Longrightarrow> coefProxyList s = cs \<Longrightarrow>
             evaluate s = Inr (v, f (errorCount s + 1), s\<lparr>errorCount := errorCount s + 1\<rparr>)"
    and "modelProxyList self = ms" and "coefProxyList self = cs"
  shows "evaluate_calls n self =
     Inr (map (\<lambda>k. (v, f (errorCount self + 1 + int k))) [0..<n],
          self\<lparr>errorCount := errorCount self + int n\<rparr>)"
  using assms(2,3)
proof (induction n arbitrary: self)
  case 0
  then show ?case by simp
next
  case (Suc n)
  let ?self' = "self\<lparr>errorCount := errorCount self + 1\<rparr>"
  have first: "evaluate self = Inr (v, f (errorCount self + 1), ?self')"
    using Suc.prems by (rule step)
  have ih: "evaluate_calls n ?self' =
     Inr (map (\<lambda>k. (v, f (errorCount ?self' + 1 + int k))) [0..<n],
          ?self'\<lparr>errorCount := errorCount ?self' + int n\<rparr>)"
    using Suc.prems by (intro Suc.IH) simp_all
  have eq: "errorCount ?self' + 1 + int k = errorCount self + 1 + int (Suc k)" for k
    by simp
  have eqn: "?self'\<lparr>errorCount := errorCount ?self' + int n\<rparr> =
             self\<lparr>errorCount := errorCount self + int (Suc n)\<rparr>"
    by simp
  have rest: "evaluate_calls n ?self' =
     Inr (map (\<lambda>k. (v, f (errorCount self + 1 + int (Suc k)))) [0..<n],
          self\<lparr>errorCount := errorCount self + int (Suc n)\<rparr>)"
    using ih unfolding eq eqn .
  have shift: "map (\<lambda>k. (v, f (errorCount self + 1 + int k))) [0..<Suc n] =
               (v, f (errorCount self + 1)) #
               map (\<lambda>k. (v, f (errorCount self + 1 + int (Suc k)))) [0..<n]"
    unfolding upt_conv_Cons [OF zero_less_Suc] map_Suc_upt [symmetric]
    by (simp add: comp_def)
  show ?case
    by (simp only: evaluate_calls.simps first sum.case prod.case rest shift)
qed

text \<open>
  C5. The claim is that the warning about a last weight outside [0,1] is limited, in
  \<open>evaluate\<close> and in the analytic integral alike, to the first ten occurrences on an
  object, and that the value is returned in every case. \<open>evaluate\<close> does so: of
  twelve calls in a row on the composite with coefficient 3/2 the first ten print the
  warning, the tenth with the announcement that it is the last, and the two after
  print nothing; each returns the value 1. So does the analytic integral under master
  code 0, which is \<open>evaluate\<close>: with ten warnings counted it returns the value and
  prints nothing. The analytic integral under the stored code 1 does not: where the
  call through the null pointer at the end of the coefficient loop (line 573) traps,
  it returns no value; where that call answers null, the warning at lines 585-589 has
  no test of the counter, and eleven calls in a row print it eleven times.
\<close>

theorem integral_warning_not_as_evaluate:
  "evaluate_calls 12 degenerate_sum =
     Inr (replicate 9 (1, [CoefNotInRange (3/2)])
            @ [(1, [CoefNotInRange (3/2), NoMoreWillBePrinted])]
            @ replicate 2 (1, []),
          degenerate_sum\<lparr>errorCount := 12\<rparr>)
   \<and> analyticalIntegralWN Traps (degenerate_negotiated\<lparr>errorCount := 10\<rparr>) 0 None =
       Inr (1, [], degenerate_negotiated\<lparr>errorCount := 11\<rparr>)
   \<and> analyticalIntegralWN Traps degenerate_negotiated 1 None = Inl NullDeref
   \<and> integral_calls YieldsNull 11 degenerate_negotiated 1 None =
       Inr (replicate 11 (11, [CoefNotInRange (3/2)]), degenerate_negotiated)"
proof (intro conjI)
  let ?f = "\<lambda>n :: int. if n \<le> 10
              then CoefNotInRange (3/2) # (if n = 10 then [NoMoreWillBePrinted] else [])
              else []"
  have step: "evaluate s = Inr (1, ?f (errorCount s + 1), s\<lparr>errorCount := errorCount s + 1\<rparr>)"
    if "modelProxyList s = [model_E, model_B]"
      and "coefProxyList s = [coefficient ''c'' (3/2)]" for s
  proof -
    have len: "length (modelProxyList s) = length (coefProxyList s) + 1"
      using that by simp
    show ?thesis
      unfolding evaluate_result [OF len] using that
      by (simp add: Let_def component_def coefficient_def model_E_def model_B_def)
  qed
  have run: "evaluate_calls 12 degenerate_sum =
     Inr (map (\<lambda>k. (1, ?f (errorCount degenerate_sum + 1 + int k))) [0..<12],
          degenerate_sum\<lparr>errorCount := errorCount degenerate_sum + int 12\<rparr>)"
    by (rule evaluate_calls_counter [OF step]) (simp_all add: degenerate_sum_def composite_def)
  have upt: "[0..<12] = [0, 1, 2, 3, 4, 5, 6, 7, 8, 9, 10, 11]"
    by (simp add: upt_rec)
  have zero: "errorCount degenerate_sum = 0"
    by (simp add: degenerate_sum_def composite_def)
  show "evaluate_calls 12 degenerate_sum =
     Inr (replicate 9 (1, [CoefNotInRange (3/2)])
            @ [(1, [CoefNotInRange (3/2), NoMoreWillBePrinted])]
            @ replicate 2 (1, []),
          degenerate_sum\<lparr>errorCount := 12\<rparr>)"
    unfolding run upt zero by (simp add: eval_nat_numeral)
next
  have len: "length (modelProxyList (degenerate_negotiated\<lparr>errorCount := 10\<rparr>)) =
               length (coefProxyList (degenerate_negotiated\<lparr>errorCount := 10\<rparr>)) + 1"
    by (simp add: degenerate_negotiated_def degenerate_sum_def composite_def)
  show "analyticalIntegralWN Traps (degenerate_negotiated\<lparr>errorCount := 10\<rparr>) 0 None =
       Inr (1, [], degenerate_negotiated\<lparr>errorCount := 11\<rparr>)"
    unfolding analyticalIntegralWN_def getVal_def evaluate_result [OF len]
    by (simp add: degenerate_negotiated_def degenerate_sum_def composite_def component_def
          coefficient_def model_E_def model_B_def)
next
  have len: "length (modelProxyList degenerate_negotiated) =
               length (coefProxyList degenerate_negotiated) + 1"
    by (simp add: degenerate_negotiated_def degenerate_sum_def composite_def)
  have reg: "retrieve (codeReg degenerate_negotiated) (1 - 1) = Some [5, 2]"
    by (simp add: retrieve_def degenerate_negotiated_def)
  have sub: "length [5, 2 :: int] = length (modelProxyList degenerate_negotiated)"
    by (simp add: degenerate_negotiated_def degenerate_sum_def composite_def)
  show "analyticalIntegralWN Traps degenerate_negotiated 1 None = Inl NullDeref"
    by (rule analyticalIntegralWN_Traps [OF len one_neq_zero reg sub])
  have one: "analyticalIntegralWN YieldsNull degenerate_negotiated 1 None =
               Inr (11, [CoefNotInRange (3/2)], degenerate_negotiated)"
    unfolding analyticalIntegralWN_YieldsNull [OF len one_neq_zero reg sub]
    by (simp add: degenerate_negotiated_def degenerate_sum_def composite_def component_def
          coefficient_def model_E_def model_B_def)
  show "integral_calls YieldsNull 11 degenerate_negotiated 1 None =
       Inr (replicate 11 (11, [CoefNotInRange (3/2)]), degenerate_negotiated)"
    by (rule integral_calls_result [OF one])
qed

end
